theory Spec2Isabelle
  imports Main
begin

section \<open>The OpenCL backend as command\_queue.hpp sees it\<close>

text \<open>
  The file \<^verbatim>\<open>include/boost/compute/command_queue.hpp\<close> wraps the OpenCL host API.
  Native handles (\<^verbatim>\<open>cl_command_queue\<close>, \<^verbatim>\<open>cl_mem\<close>, \<^verbatim>\<open>cl_kernel\<close>,
  \<^verbatim>\<open>cl_event\<close>, \<^verbatim>\<open>cl_context\<close>) and host pointers are opaque identifiers,
  modelled as natural numbers with 0 for the null handle or pointer. \<^verbatim>\<open>cl_int\<close>
  status codes are integers that the wrapper only compares with \<^verbatim>\<open>CL_SUCCESS\<close>.
  \<^verbatim>\<open>uint_\<close> versions and \<^verbatim>\<open>size_t\<close> values are natural numbers; the one
  place where the wrapper adds two \<^verbatim>\<open>size_t\<close> values (the range assertions
  \<^verbatim>\<open>offset + size <= buffer.size()\<close>) has the 64-bit wrap-around written out.
  The model is the build in which \<^verbatim>\<open>CL_VERSION_1_1\<close>, \<^verbatim>\<open>CL_VERSION_1_2\<close>
  and \<^verbatim>\<open>CL_VERSION_2_0\<close> are all defined, so that every method exists, and in
  which assertions are enabled.
\<close>

type_synonym cl_command_queue = nat
type_synonym cl_mem = nat
type_synonym cl_kernel = nat
type_synonym cl_event = nat
type_synonym cl_context = nat
type_synonym cl_int = int
type_synonym uint = nat
type_synonym size_t = nat
type_synonym host_ptr = nat
type_synonym wait_list = "cl_event list"
type_synonym extent3 = "size_t \<times> size_t \<times> size_t"

text \<open>Constants of the OpenCL header \<^verbatim>\<open>CL/cl.h\<close>.\<close>

definition CL_SUCCESS :: cl_int where
  "CL_SUCCESS = 0"

definition CL_INVALID_DEVICE :: cl_int where
  "CL_INVALID_DEVICE = - 33"

definition CL_INVALID_COMMAND_QUEUE :: cl_int where
  "CL_INVALID_COMMAND_QUEUE = - 36"

definition CL_MAP_READ :: nat where
  "CL_MAP_READ = 1"

definition CL_MAP_WRITE :: nat where
  "CL_MAP_WRITE = 2"

definition size_t_modulus :: nat where
  "size_t_modulus = 2 ^ 64"

text \<open>
  The request part of each \<^verbatim>\<open>clEnqueue...\<close> entry point the modelled methods call:
  the arguments between the queue handle and the trailing
  \<^verbatim>\<open>(num_events, event_list, event)\<close> triple, in the order of the C signature.
  A \<^verbatim>\<open>cl_bool\<close> blocking flag is a \<open>bool\<close>; a \<^verbatim>\<open>const size_t *\<close> that
  may be null is an option.
\<close>

datatype cl_command =
    ReadBuffer cl_mem bool size_t size_t host_ptr
  | WriteBuffer cl_mem bool size_t size_t host_ptr
  | CopyBuffer cl_mem cl_mem size_t size_t size_t
  | ReadBufferRect cl_mem bool extent3 extent3 extent3 "size_t list" host_ptr
  | WriteBufferRect cl_mem bool extent3 extent3 extent3 "size_t list" host_ptr
  | CopyBufferRect cl_mem cl_mem extent3 extent3 extent3 "size_t list"
  | FillBuffer cl_mem host_ptr size_t size_t size_t
  | MapImage cl_mem bool nat extent3 extent3
  | UnmapMemObject cl_mem host_ptr
  | FillImage cl_mem host_ptr "extent3 option" "extent3 option"
  | MigrateMemObjects uint "cl_mem list" nat
  | NDRangeKernel cl_kernel nat "size_t list option" "size_t list option" "size_t list option"
  | Task cl_kernel
  | BarrierWithWaitList
  | MarkerWithWaitList
  | SVMMemcpy bool host_ptr host_ptr size_t
  | SVMMemFill host_ptr host_ptr size_t size_t
  | SVMFree "host_ptr list"
  | SVMMap bool nat host_ptr size_t
  | SVMUnmap host_ptr

text \<open>
  One entry of the log of calls that reach the backend. \<open>clEnqueue q c ws ev\<close> is
  the call of the entry point of request \<open>c\<close> on queue \<open>q\<close> with wait list \<open>ws\<close>;
  \<open>ev\<close> says whether a non-null event slot was passed. \<open>QueryDeviceVersion q\<close>
  stands for \<^verbatim>\<open>get_device().get_version()\<close>, the query behind the cached
  version. The other information queries, which only feed a \<^verbatim>\<open>BOOST_ASSERT\<close> or
  read an attribute of a buffer, image or kernel (\<^verbatim>\<open>get_context()\<close>,
  \<^verbatim>\<open>size()\<close>, \<^verbatim>\<open>width()\<close>, ...), do reach the backend in the code
  (\<^verbatim>\<open>clGetCommandQueueInfo\<close>, \<^verbatim>\<open>clGetMemObjectInfo\<close>, ...), but the model
  takes them as reads of the backend's tables and does not log them: the log holds the
  reference counting, the version query and the submissions.
\<close>

datatype cl_call =
    clRetainCommandQueue cl_command_queue
  | clReleaseCommandQueue cl_command_queue
  | QueryDeviceVersion cl_command_queue
  | clEnqueue cl_command_queue cl_command wait_list bool
  | clEnqueueBarrier cl_command_queue
  | clEnqueueMarker cl_command_queue bool
  | clCreateUserEvent cl_context
  | clSetEventCallback cl_event

text \<open>
  The backend is an external collaborator and a parameter of every method: what it
  answers to a call, given the calls made so far. \<open>cl_status\<close> is the status of a
  call, also of the version query; \<open>device_version\<close> is the version that a query
  which succeeds stores.
\<close>

record backend =
  queue_context :: "cl_command_queue \<Rightarrow> cl_context"
  device_version :: "cl_command_queue \<Rightarrow> uint"
  cl_status :: "cl_call list \<Rightarrow> cl_call \<Rightarrow> cl_int"
  cl_event_out :: "cl_call list \<Rightarrow> cl_call \<Rightarrow> cl_event"
  cl_map_out :: "cl_call list \<Rightarrow> cl_call \<Rightarrow> host_ptr \<times> size_t \<times> size_t"

text \<open>
  \<^verbatim>\<open>BOOST_THROW_EXCEPTION(opencl_error(ret))\<close> is the only exception the file
  throws; a failed \<^verbatim>\<open>BOOST_ASSERT\<close> aborts. A method call on an object that was
  destroyed has no defined behaviour in C++ and is the third error of the model.
\<close>

datatype error = opencl_error cl_int | assertion_failed | dangling_object

section \<open>The command\_queue object and its life cycle\<close>

record command_queue =
  m_queue :: cl_command_queue
  m_version :: uint

text \<open>
  Copy assignment compares \<^verbatim>\<open>this != &other\<close>, so objects live in a store: the
  address of an object is its index, a destroyed object leaves \<open>None\<close>, and a
  constructor places its object at the next free address.
\<close>

record machine =
  heap :: "command_queue option list"
  calls :: "cl_call list"

definition lookup :: "machine \<Rightarrow> nat \<Rightarrow> command_queue option" where
  "lookup M a = (if a < length (heap M) then heap M ! a else None)"

definition retain_if :: "cl_command_queue \<Rightarrow> cl_call list \<Rightarrow> cl_call list" where
  "retain_if q cs = (if q \<noteq> 0 then cs @ [clRetainCommandQueue q] else cs)"

definition release_if :: "cl_command_queue \<Rightarrow> cl_call list \<Rightarrow> cl_call list" where
  "release_if q cs = (if q \<noteq> 0 then cs @ [clReleaseCommandQueue q] else cs)"

text \<open>\<^verbatim>\<open>command_queue()\<close>\<close>

definition construct_null :: "machine \<Rightarrow> machine" where
  "construct_null M = M\<lparr>heap := heap M @ [Some \<lparr>m_queue = 0, m_version = 0\<rparr>]\<rparr>"

text \<open>\<^verbatim>\<open>explicit command_queue(cl_command_queue queue, bool retain = true)\<close>\<close>

definition construct_from_id :: "cl_command_queue \<Rightarrow> bool \<Rightarrow> machine \<Rightarrow> machine" where
  "construct_from_id q retain M =
     M\<lparr>heap := heap M @ [Some \<lparr>m_queue = q, m_version = 0\<rparr>],
       calls := (if q \<noteq> 0 \<and> retain then calls M @ [clRetainCommandQueue q] else calls M)\<rparr>"

text \<open>\<^verbatim>\<open>command_queue(const command_queue &other)\<close>\<close>

definition copy_construct :: "nat \<Rightarrow> machine \<Rightarrow> error + machine" where
  "copy_construct other M =
     (case lookup M other of
        None \<Rightarrow> Inl dangling_object
      | Some ob \<Rightarrow>
          Inr (M\<lparr>heap := heap M @ [Some \<lparr>m_queue = m_queue ob, m_version = m_version ob\<rparr>],
                 calls := retain_if (m_queue ob) (calls M)\<rparr>))"

text \<open>\<^verbatim>\<open>command_queue& operator=(const command_queue &other)\<close>\<close>

definition copy_assign :: "nat \<Rightarrow> nat \<Rightarrow> machine \<Rightarrow> error + machine" where
  "copy_assign this other M =
     (case lookup M this of
        None \<Rightarrow> Inl dangling_object
      | Some t \<Rightarrow>
         (case lookup M other of
            None \<Rightarrow> Inl dangling_object
          | Some ob \<Rightarrow>
              if this \<noteq> other then
                let cs1 = release_if (m_queue t) (calls M);
                    t' = t\<lparr>m_queue := m_queue ob, m_version := m_version ob\<rparr>;
                    cs2 = retain_if (m_queue t') cs1
                in Inr (M\<lparr>heap := (heap M)[this := Some t'], calls := cs2\<rparr>)
              else Inr M))"

text \<open>\<^verbatim>\<open>command_queue(command_queue&& other)\<close>\<close>

definition move_construct :: "nat \<Rightarrow> machine \<Rightarrow> error + machine" where
  "move_construct other M =
     (case lookup M other of
        None \<Rightarrow> Inl dangling_object
      | Some ob \<Rightarrow>
          Inr (M\<lparr>heap := (heap M)[other := Some (ob\<lparr>m_queue := 0, m_version := 0\<rparr>)]
                          @ [Some \<lparr>m_queue = m_queue ob, m_version = m_version ob\<rparr>]\<rparr>))"

text \<open>
  \<^verbatim>\<open>command_queue& operator=(command_queue&& other)\<close>: there is no self-assignment
  test, and \<^verbatim>\<open>other.m_queue = 0\<close> is stored after the two fields of
  \<^verbatim>\<open>*this\<close>, so \<open>other\<close> is read again from the updated store.
\<close>

definition move_assign :: "nat \<Rightarrow> nat \<Rightarrow> machine \<Rightarrow> error + machine" where
  "move_assign this other M =
     (case lookup M this of
        None \<Rightarrow> Inl dangling_object
      | Some t \<Rightarrow>
         (case lookup M other of
            None \<Rightarrow> Inl dangling_object
          | Some ob \<Rightarrow>
              let cs1 = release_if (m_queue t) (calls M);
                  t' = t\<lparr>m_queue := m_queue ob, m_version := m_version ob\<rparr>;
                  h1 = (heap M)[this := Some t'];
                  ob1 = (if this = other then t' else ob);
                  h2 = h1[other := Some (ob1\<lparr>m_queue := 0\<rparr>)]
              in Inr (M\<lparr>heap := h2, calls := cs1\<rparr>)))"

text \<open>
  \<^verbatim>\<open>~command_queue()\<close>: the release is wrapped in
  \<^verbatim>\<open>BOOST_COMPUTE_ASSERT_CL_SUCCESS\<close>.
\<close>

definition destroy :: "backend \<Rightarrow> nat \<Rightarrow> machine \<Rightarrow> error + machine" where
  "destroy B this M =
     (case lookup M this of
        None \<Rightarrow> Inl dangling_object
      | Some t \<Rightarrow>
          if m_queue t \<noteq> 0 then
            (if cl_status B (calls M) (clReleaseCommandQueue (m_queue t)) = CL_SUCCESS
             then Inr (M\<lparr>heap := (heap M)[this := None],
                         calls := calls M @ [clReleaseCommandQueue (m_queue t)]\<rparr>)
             else Inl assertion_failed)
          else Inr (M\<lparr>heap := (heap M)[this := None]\<rparr>))"

text \<open>A program over the store: copies, moves and destructions, stopped by the first error.\<close>

datatype lifecycle_op =
    CopyConstruct nat
  | CopyAssign nat nat
  | MoveConstruct nat
  | MoveAssign nat nat
  | Destroy nat

fun step :: "backend \<Rightarrow> lifecycle_op \<Rightarrow> machine \<Rightarrow> error + machine" where
  "step B (CopyConstruct other) M = copy_construct other M"
| "step B (CopyAssign this other) M = copy_assign this other M"
| "step B (MoveConstruct other) M = move_construct other M"
| "step B (MoveAssign this other) M = move_assign this other M"
| "step B (Destroy this) M = destroy B this M"

fun run :: "backend \<Rightarrow> lifecycle_op list \<Rightarrow> machine \<Rightarrow> error + machine" where
  "run B [] M = Inr M"
| "run B (x # xs) M = (case step B x M of Inl e \<Rightarrow> Inl e | Inr M' \<Rightarrow> run B xs M')"

text \<open>
  The bookkeeping of a native id \<open>q\<close>: the live objects that hold it, and the retain
  and release calls logged for it.
\<close>

definition holds :: "cl_command_queue \<Rightarrow> command_queue option \<Rightarrow> bool" where
  "holds q x = (case x of None \<Rightarrow> False | Some c \<Rightarrow> m_queue c = q)"

definition holders :: "cl_command_queue \<Rightarrow> machine \<Rightarrow> nat" where
  "holders q M = length (filter (holds q) (heap M))"

definition retains :: "cl_command_queue \<Rightarrow> cl_call list \<Rightarrow> nat" where
  "retains q cs = count_list cs (clRetainCommandQueue q)"

definition releases :: "cl_command_queue \<Rightarrow> cl_call list \<Rightarrow> nat" where
  "releases q cs = count_list cs (clReleaseCommandQueue q)"

text \<open>
  \<^verbatim>\<open>uint_ get_version() const\<close>, with the mutable cache \<^verbatim>\<open>m_version\<close>.
  \<^verbatim>\<open>get_device()\<close> reads the device of the queue with \<^verbatim>\<open>get_info\<close>, that is
  with the library's \<^verbatim>\<open>detail::get_object_info\<close>, which throws
  \<^verbatim>\<open>opencl_error(ret)\<close> when \<^verbatim>\<open>clGetCommandQueueInfo\<close> does not return
  \<^verbatim>\<open>CL_SUCCESS\<close> (as it does for a null queue); the assignment to the cache is
  then not reached.
\<close>

definition get_version ::
  "backend \<Rightarrow> command_queue \<Rightarrow> cl_call list
     \<Rightarrow> (error + uint) \<times> command_queue \<times> cl_call list" where
  "get_version B cq cs =
     (if m_version cq = 0
      then (let call = QueryDeviceVersion (m_queue cq);
                ret = cl_status B cs call
            in if ret \<noteq> CL_SUCCESS then (Inl (opencl_error ret), cq, cs @ [call])
               else (let v = device_version B (m_queue cq)
                     in (Inr v, cq\<lparr>m_version := v\<rparr>, cs @ [call])))
      else (Inr (m_version cq), cq, cs))"

section \<open>Enqueue operations\<close>

text \<open>
  The attributes of the resources a method reads, as the wrapper classes of the
  library report them (\<^verbatim>\<open>get()\<close>, \<^verbatim>\<open>get_context()\<close>, \<^verbatim>\<open>size()\<close>,
  \<^verbatim>\<open>width()\<close>, \<^verbatim>\<open>height()\<close>, \<^verbatim>\<open>depth()\<close>,
  \<^verbatim>\<open>get_image_info<size_t>(CL_IMAGE_ELEMENT_SIZE)\<close>).
\<close>

record buffer =
  buf_mem :: cl_mem
  buf_context :: cl_context
  buf_size :: size_t

record kernel =
  krn_id :: cl_kernel
  krn_context :: cl_context

record image_object =
  img_mem :: cl_mem
  img_context :: cl_context
  img_width :: size_t
  img_height :: size_t
  img_depth :: size_t
  img_element_size :: size_t

text \<open>
  A method runs on its queue object and the log, and returns both with its result:
  \<open>Inl\<close> an error, \<open>Inr\<close> the value. For a method with an \<^verbatim>\<open>event * event_\<close>
  parameter the argument \<open>event_p\<close> says whether the pointer is non-null, and the value is the
  event the backend stored through it, if any.
\<close>

type_synonym 'a outcome = "(error + 'a) \<times> command_queue \<times> cl_call list"

definition assert_fail :: "command_queue \<Rightarrow> cl_call list \<Rightarrow> 'a outcome" where
  "assert_fail cq cs = (Inl assertion_failed, cq, cs)"

text \<open>
  The tail shared by the methods:
  \<^verbatim>\<open>cl_int ret = clEnqueueX(m_queue, ..., events.size(), events.get_event_ptr(),
  event_ ? &event_->get() : NULL); if(ret != CL_SUCCESS) BOOST_THROW_EXCEPTION(opencl_error(ret));\<close>
\<close>

definition submit ::
  "backend \<Rightarrow> cl_command \<Rightarrow> wait_list \<Rightarrow> bool \<Rightarrow> command_queue \<Rightarrow> cl_call list
     \<Rightarrow> cl_event option outcome" where
  "submit B c events event_p cq cs =
     (let call = clEnqueue (m_queue cq) c events event_p;
          ret = cl_status B cs call
      in if ret \<noteq> CL_SUCCESS then (Inl (opencl_error ret), cq, cs @ [call])
         else (Inr (if event_p then Some (cl_event_out B cs call) else None), cq, cs @ [call]))"

text \<open>
  An \<^verbatim>\<open>_async\<close> method declares \<^verbatim>\<open>event event_;\<close> (a null event), passes
  \<^verbatim>\<open>&event_\<close> and returns the object.
\<close>

definition return_event :: "cl_event option outcome \<Rightarrow> cl_event outcome" where
  "return_event r =
     (case r of
        (Inl e, cq, cs) \<Rightarrow> (Inl e, cq, cs)
      | (Inr ev, cq, cs) \<Rightarrow> (Inr (case ev of None \<Rightarrow> 0 | Some e \<Rightarrow> e), cq, cs))"

definition enqueue_read_buffer ::
  "backend \<Rightarrow> buffer \<Rightarrow> size_t \<Rightarrow> size_t \<Rightarrow> host_ptr \<Rightarrow> wait_list \<Rightarrow> bool
     \<Rightarrow> command_queue \<Rightarrow> cl_call list \<Rightarrow> cl_event option outcome" where
  "enqueue_read_buffer B buffer offset sz host_ptr events event_p cq cs =
     (if m_queue cq = 0 then assert_fail cq cs
      else if \<not> sz \<le> buf_size buffer then assert_fail cq cs
      else if buf_context buffer \<noteq> queue_context B (m_queue cq) then assert_fail cq cs
      else if host_ptr = 0 then assert_fail cq cs
      else submit B (ReadBuffer (buf_mem buffer) (\<not> event_p) offset sz host_ptr)
             events event_p cq cs)"

definition enqueue_read_buffer_async ::
  "backend \<Rightarrow> buffer \<Rightarrow> size_t \<Rightarrow> size_t \<Rightarrow> host_ptr \<Rightarrow> wait_list
     \<Rightarrow> command_queue \<Rightarrow> cl_call list \<Rightarrow> cl_event outcome" where
  "enqueue_read_buffer_async B buffer offset sz host_ptr events cq cs =
     return_event (enqueue_read_buffer B buffer offset sz host_ptr events True cq cs)"

definition enqueue_read_buffer_rect ::
  "backend \<Rightarrow> buffer \<Rightarrow> extent3 \<Rightarrow> extent3 \<Rightarrow> extent3 \<Rightarrow> size_t \<Rightarrow> size_t \<Rightarrow> size_t
     \<Rightarrow> size_t \<Rightarrow> host_ptr \<Rightarrow> wait_list \<Rightarrow> bool
     \<Rightarrow> command_queue \<Rightarrow> cl_call list \<Rightarrow> cl_event option outcome" where
  "enqueue_read_buffer_rect B buffer buffer_origin host_origin region buffer_row_pitch
       buffer_slice_pitch host_row_pitch host_slice_pitch host_ptr events event_p cq cs =
     (if m_queue cq = 0 then assert_fail cq cs
      else if buf_context buffer \<noteq> queue_context B (m_queue cq) then assert_fail cq cs
      else if host_ptr = 0 then assert_fail cq cs
      else case get_version B cq cs of
        (Inl e, cq1, cs1) \<Rightarrow> (Inl e, cq1, cs1)
      | (Inr v, cq1, cs1) \<Rightarrow>
        if v < 110 then (Inl (opencl_error CL_INVALID_DEVICE), cq1, cs1)
        else submit B (ReadBufferRect (buf_mem buffer) (\<not> event_p) buffer_origin host_origin
                         region [buffer_row_pitch, buffer_slice_pitch, host_row_pitch,
                                 host_slice_pitch] host_ptr)
               events event_p cq1 cs1)"

definition enqueue_write_buffer ::
  "backend \<Rightarrow> buffer \<Rightarrow> size_t \<Rightarrow> size_t \<Rightarrow> host_ptr \<Rightarrow> wait_list \<Rightarrow> bool
     \<Rightarrow> command_queue \<Rightarrow> cl_call list \<Rightarrow> cl_event option outcome" where
  "enqueue_write_buffer B buffer offset sz host_ptr events event_p cq cs =
     (if m_queue cq = 0 then assert_fail cq cs
      else if \<not> sz \<le> buf_size buffer then assert_fail cq cs
      else if buf_context buffer \<noteq> queue_context B (m_queue cq) then assert_fail cq cs
      else if host_ptr = 0 then assert_fail cq cs
      else submit B (WriteBuffer (buf_mem buffer) (\<not> event_p) offset sz host_ptr)
             events event_p cq cs)"

definition enqueue_write_buffer_async ::
  "backend \<Rightarrow> buffer \<Rightarrow> size_t \<Rightarrow> size_t \<Rightarrow> host_ptr \<Rightarrow> wait_list
     \<Rightarrow> command_queue \<Rightarrow> cl_call list \<Rightarrow> cl_event outcome" where
  "enqueue_write_buffer_async B buffer offset sz host_ptr events cq cs =
     return_event (enqueue_write_buffer B buffer offset sz host_ptr events True cq cs)"

definition enqueue_write_buffer_rect ::
  "backend \<Rightarrow> buffer \<Rightarrow> extent3 \<Rightarrow> extent3 \<Rightarrow> extent3 \<Rightarrow> size_t \<Rightarrow> size_t \<Rightarrow> size_t
     \<Rightarrow> size_t \<Rightarrow> host_ptr \<Rightarrow> wait_list \<Rightarrow> bool
     \<Rightarrow> command_queue \<Rightarrow> cl_call list \<Rightarrow> cl_event option outcome" where
  "enqueue_write_buffer_rect B buffer buffer_origin host_origin region buffer_row_pitch
       buffer_slice_pitch host_row_pitch host_slice_pitch host_ptr events event_p cq cs =
     (if m_queue cq = 0 then assert_fail cq cs
      else if buf_context buffer \<noteq> queue_context B (m_queue cq) then assert_fail cq cs
      else if host_ptr = 0 then assert_fail cq cs
      else case get_version B cq cs of
        (Inl e, cq1, cs1) \<Rightarrow> (Inl e, cq1, cs1)
      | (Inr v, cq1, cs1) \<Rightarrow>
        if v < 110 then (Inl (opencl_error CL_INVALID_DEVICE), cq1, cs1)
        else submit B (WriteBufferRect (buf_mem buffer) (\<not> event_p) buffer_origin host_origin
                         region [buffer_row_pitch, buffer_slice_pitch, host_row_pitch,
                                 host_slice_pitch] host_ptr)
               events event_p cq1 cs1)"

definition enqueue_copy_buffer ::
  "backend \<Rightarrow> buffer \<Rightarrow> buffer \<Rightarrow> size_t \<Rightarrow> size_t \<Rightarrow> size_t \<Rightarrow> wait_list \<Rightarrow> bool
     \<Rightarrow> command_queue \<Rightarrow> cl_call list \<Rightarrow> cl_event option outcome" where
  "enqueue_copy_buffer B src_buffer dst_buffer src_offset dst_offset sz events event_p cq cs =
     (if m_queue cq = 0 then assert_fail cq cs
      else if \<not> (src_offset + sz) mod size_t_modulus \<le> buf_size src_buffer
        then assert_fail cq cs
      else if \<not> (dst_offset + sz) mod size_t_modulus \<le> buf_size dst_buffer
        then assert_fail cq cs
      else if buf_context src_buffer \<noteq> queue_context B (m_queue cq) then assert_fail cq cs
      else if buf_context dst_buffer \<noteq> queue_context B (m_queue cq) then assert_fail cq cs
      else submit B (CopyBuffer (buf_mem src_buffer) (buf_mem dst_buffer) src_offset
                       dst_offset sz)
             events event_p cq cs)"

definition enqueue_copy_buffer_async ::
  "backend \<Rightarrow> buffer \<Rightarrow> buffer \<Rightarrow> size_t \<Rightarrow> size_t \<Rightarrow> size_t \<Rightarrow> wait_list
     \<Rightarrow> command_queue \<Rightarrow> cl_call list \<Rightarrow> cl_event outcome" where
  "enqueue_copy_buffer_async B src_buffer dst_buffer src_offset dst_offset sz events cq cs =
     return_event
       (enqueue_copy_buffer B src_buffer dst_buffer src_offset dst_offset sz events True cq cs)"

definition enqueue_copy_buffer_rect ::
  "backend \<Rightarrow> buffer \<Rightarrow> buffer \<Rightarrow> extent3 \<Rightarrow> extent3 \<Rightarrow> extent3 \<Rightarrow> size_t \<Rightarrow> size_t
     \<Rightarrow> size_t \<Rightarrow> size_t \<Rightarrow> wait_list \<Rightarrow> bool
     \<Rightarrow> command_queue \<Rightarrow> cl_call list \<Rightarrow> cl_event option outcome" where
  "enqueue_copy_buffer_rect B src_buffer dst_buffer src_origin dst_origin region
       buffer_row_pitch buffer_slice_pitch host_row_pitch host_slice_pitch events event_p cq cs =
     (if m_queue cq = 0 then assert_fail cq cs
      else if buf_context src_buffer \<noteq> queue_context B (m_queue cq) then assert_fail cq cs
      else if buf_context dst_buffer \<noteq> queue_context B (m_queue cq) then assert_fail cq cs
      else case get_version B cq cs of
        (Inl e, cq1, cs1) \<Rightarrow> (Inl e, cq1, cs1)
      | (Inr v, cq1, cs1) \<Rightarrow>
        if v < 110 then (Inl (opencl_error CL_INVALID_DEVICE), cq1, cs1)
        else submit B (CopyBufferRect (buf_mem src_buffer) (buf_mem dst_buffer) src_origin
                         dst_origin region [buffer_row_pitch, buffer_slice_pitch,
                                            host_row_pitch, host_slice_pitch])
               events event_p cq1 cs1)"

definition enqueue_fill_buffer ::
  "backend \<Rightarrow> buffer \<Rightarrow> host_ptr \<Rightarrow> size_t \<Rightarrow> size_t \<Rightarrow> size_t \<Rightarrow> wait_list \<Rightarrow> bool
     \<Rightarrow> command_queue \<Rightarrow> cl_call list \<Rightarrow> cl_event option outcome" where
  "enqueue_fill_buffer B buffer pattern pattern_size offset sz events event_p cq cs =
     (if m_queue cq = 0 then assert_fail cq cs
      else if \<not> (offset + sz) mod size_t_modulus \<le> buf_size buffer then assert_fail cq cs
      else if buf_context buffer \<noteq> queue_context B (m_queue cq) then assert_fail cq cs
      else case get_version B cq cs of
        (Inl e, cq1, cs1) \<Rightarrow> (Inl e, cq1, cs1)
      | (Inr v, cq1, cs1) \<Rightarrow>
        if v < 120 then (Inl (opencl_error CL_INVALID_DEVICE), cq1, cs1)
        else submit B (FillBuffer (buf_mem buffer) pattern pattern_size offset sz)
               events event_p cq1 cs1)"

definition enqueue_fill_buffer_async ::
  "backend \<Rightarrow> buffer \<Rightarrow> host_ptr \<Rightarrow> size_t \<Rightarrow> size_t \<Rightarrow> size_t \<Rightarrow> wait_list
     \<Rightarrow> command_queue \<Rightarrow> cl_call list \<Rightarrow> cl_event outcome" where
  "enqueue_fill_buffer_async B buffer pattern pattern_size offset sz events cq cs =
     return_event
       (enqueue_fill_buffer B buffer pattern pattern_size offset sz events True cq cs)"

text \<open>
  \<^verbatim>\<open>enqueue_fill_image\<close> (the pointer overload) tests the version before its
  assertions.
\<close>

definition enqueue_fill_image ::
  "backend \<Rightarrow> image_object \<Rightarrow> host_ptr \<Rightarrow> extent3 option \<Rightarrow> extent3 option \<Rightarrow> wait_list
     \<Rightarrow> bool \<Rightarrow> command_queue \<Rightarrow> cl_call list \<Rightarrow> cl_event option outcome" where
  "enqueue_fill_image B img fill_color origin region events event_p cq cs =
     (case get_version B cq cs of
        (Inl e, cq1, cs1) \<Rightarrow> (Inl e, cq1, cs1)
      | (Inr v, cq1, cs1) \<Rightarrow>
        if v < 120 then (Inl (opencl_error CL_INVALID_DEVICE), cq1, cs1)
        else if m_queue cq1 = 0 then assert_fail cq1 cs1
        else if img_context img \<noteq> queue_context B (m_queue cq1) then assert_fail cq1 cs1
        else submit B (FillImage (img_mem img) fill_color origin region)
               events event_p cq1 cs1)"

definition enqueue_migrate_memory_objects ::
  "backend \<Rightarrow> uint \<Rightarrow> cl_mem list \<Rightarrow> nat \<Rightarrow> wait_list \<Rightarrow> bool
     \<Rightarrow> command_queue \<Rightarrow> cl_call list \<Rightarrow> cl_event option outcome" where
  "enqueue_migrate_memory_objects B num_mem_objects mem_objects flags events event_p cq cs =
     (if m_queue cq = 0 then assert_fail cq cs
      else case get_version B cq cs of
        (Inl e, cq1, cs1) \<Rightarrow> (Inl e, cq1, cs1)
      | (Inr v, cq1, cs1) \<Rightarrow>
        if v < 120 then (Inl (opencl_error CL_INVALID_DEVICE), cq1, cs1)
        else submit B (MigrateMemObjects num_mem_objects mem_objects flags)
               events event_p cq1 cs1)"

text \<open>
  \<^verbatim>\<open>enqueue_nd_range_kernel\<close> (the pointer overload); \<^verbatim>\<open>work_dim\<close> is cast
  to \<^verbatim>\<open>cl_uint\<close>.
\<close>

definition enqueue_nd_range_kernel ::
  "backend \<Rightarrow> kernel \<Rightarrow> size_t \<Rightarrow> size_t list option \<Rightarrow> size_t list option
     \<Rightarrow> size_t list option \<Rightarrow> wait_list \<Rightarrow> bool
     \<Rightarrow> command_queue \<Rightarrow> cl_call list \<Rightarrow> cl_event option outcome" where
  "enqueue_nd_range_kernel B krn work_dim global_work_offset global_work_size
       local_work_size events event_p cq cs =
     (if m_queue cq = 0 then assert_fail cq cs
      else if \<not> work_dim > 0 then assert_fail cq cs
      else if krn_context krn \<noteq> queue_context B (m_queue cq) then assert_fail cq cs
      else submit B (NDRangeKernel (krn_id krn) (work_dim mod 2 ^ 32) global_work_offset
                       global_work_size local_work_size)
             events event_p cq cs)"

definition enqueue_nd_range_kernel_async ::
  "backend \<Rightarrow> kernel \<Rightarrow> size_t \<Rightarrow> size_t list option \<Rightarrow> size_t list option
     \<Rightarrow> size_t list option \<Rightarrow> wait_list
     \<Rightarrow> command_queue \<Rightarrow> cl_call list \<Rightarrow> cl_event outcome" where
  "enqueue_nd_range_kernel_async B krn work_dim global_work_offset global_work_size
       local_work_size events cq cs =
     return_event
       (enqueue_nd_range_kernel B krn work_dim global_work_offset global_work_size
          local_work_size events True cq cs)"

definition enqueue_1d_range_kernel ::
  "backend \<Rightarrow> kernel \<Rightarrow> size_t \<Rightarrow> size_t \<Rightarrow> size_t \<Rightarrow> wait_list \<Rightarrow> bool
     \<Rightarrow> command_queue \<Rightarrow> cl_call list \<Rightarrow> cl_event option outcome" where
  "enqueue_1d_range_kernel B krn global_work_offset global_work_size local_work_size
       events event_p cq cs =
     enqueue_nd_range_kernel B krn 1 (Some [global_work_offset]) (Some [global_work_size])
       (if local_work_size \<noteq> 0 then Some [local_work_size] else None) events event_p cq cs"

definition enqueue_1d_range_kernel_async ::
  "backend \<Rightarrow> kernel \<Rightarrow> size_t \<Rightarrow> size_t \<Rightarrow> size_t \<Rightarrow> wait_list
     \<Rightarrow> command_queue \<Rightarrow> cl_call list \<Rightarrow> cl_event outcome" where
  "enqueue_1d_range_kernel_async B krn global_work_offset global_work_size local_work_size
       events cq cs =
     return_event
       (enqueue_1d_range_kernel B krn global_work_offset global_work_size local_work_size
          events True cq cs)"

definition enqueue_task ::
  "backend \<Rightarrow> kernel \<Rightarrow> wait_list \<Rightarrow> bool
     \<Rightarrow> command_queue \<Rightarrow> cl_call list \<Rightarrow> cl_event option outcome" where
  "enqueue_task B krn events event_p cq cs =
     (if m_queue cq = 0 then assert_fail cq cs
      else if krn_context krn \<noteq> queue_context B (m_queue cq) then assert_fail cq cs
      else case get_version B cq cs of
        (Inl e, cq1, cs1) \<Rightarrow> (Inl e, cq1, cs1)
      | (Inr v, cq1, cs1) \<Rightarrow>
        if v \<ge> 200
        then submit B (NDRangeKernel (krn_id krn) 1 None (Some [1]) (Some [1]))
               events event_p cq1 cs1
        else submit B (Task (krn_id krn)) events event_p cq1 cs1)"

text \<open>
  \<^verbatim>\<open>void enqueue_barrier()\<close>: the value the backend returns is not stored.
\<close>

definition enqueue_barrier :: "backend \<Rightarrow> command_queue \<Rightarrow> cl_call list \<Rightarrow> unit outcome" where
  "enqueue_barrier B cq cs =
     (if m_queue cq = 0 then assert_fail cq cs
      else case get_version B cq cs of
        (Inl e, cq1, cs1) \<Rightarrow> (Inl e, cq1, cs1)
      | (Inr v, cq1, cs1) \<Rightarrow>
        if v \<ge> 120
        then (Inr (), cq1, cs1 @ [clEnqueue (m_queue cq1) BarrierWithWaitList [] False])
        else (Inr (), cq1, cs1 @ [clEnqueueBarrier (m_queue cq1)]))"

text \<open>\<^verbatim>\<open>void enqueue_barrier(const wait_list &events, event * event_ = NULL)\<close>\<close>

definition enqueue_barrier_events ::
  "backend \<Rightarrow> wait_list \<Rightarrow> bool \<Rightarrow> command_queue \<Rightarrow> cl_call list
     \<Rightarrow> cl_event option outcome" where
  "enqueue_barrier_events B events event_p cq cs =
     (if m_queue cq = 0 then assert_fail cq cs
      else case get_version B cq cs of
        (Inl e, cq1, cs1) \<Rightarrow> (Inl e, cq1, cs1)
      | (Inr v, cq1, cs1) \<Rightarrow>
        if v < 120 then (Inl (opencl_error CL_INVALID_DEVICE), cq1, cs1)
        else (let call = clEnqueue (m_queue cq1) BarrierWithWaitList events event_p
              in (Inr (if event_p then Some (cl_event_out B cs1 call) else None), cq1,
                  cs1 @ [call])))"

text \<open>\<^verbatim>\<open>void enqueue_marker(event * event_)\<close>\<close>

definition enqueue_marker ::
  "backend \<Rightarrow> bool \<Rightarrow> command_queue \<Rightarrow> cl_call list \<Rightarrow> cl_event option outcome" where
  "enqueue_marker B event_p cq cs =
     (case get_version B cq cs of
        (Inl e, cq1, cs1) \<Rightarrow> (Inl e, cq1, cs1)
      | (Inr v, cq1, cs1) \<Rightarrow>
        if v \<ge> 120 then submit B MarkerWithWaitList [] event_p cq1 cs1
        else (let call = clEnqueueMarker (m_queue cq1) event_p;
                  ret = cl_status B cs1 call
              in if ret \<noteq> CL_SUCCESS then (Inl (opencl_error ret), cq1, cs1 @ [call])
                 else (Inr (if event_p then Some (cl_event_out B cs1 call) else None), cq1,
                       cs1 @ [call])))"

text \<open>\<^verbatim>\<open>void enqueue_marker(const wait_list &events, event * event_ = NULL)\<close>\<close>

definition enqueue_marker_events ::
  "backend \<Rightarrow> wait_list \<Rightarrow> bool \<Rightarrow> command_queue \<Rightarrow> cl_call list
     \<Rightarrow> cl_event option outcome" where
  "enqueue_marker_events B events event_p cq cs =
     (case get_version B cq cs of
        (Inl e, cq1, cs1) \<Rightarrow> (Inl e, cq1, cs1)
      | (Inr v, cq1, cs1) \<Rightarrow>
        if v < 120 then (Inl (opencl_error CL_INVALID_DEVICE), cq1, cs1)
        else submit B MarkerWithWaitList events event_p cq1 cs1)"

subsection \<open>Shared virtual memory\<close>

definition enqueue_svm_memcpy ::
  "backend \<Rightarrow> host_ptr \<Rightarrow> host_ptr \<Rightarrow> size_t \<Rightarrow> wait_list \<Rightarrow> bool
     \<Rightarrow> command_queue \<Rightarrow> cl_call list \<Rightarrow> cl_event option outcome" where
  "enqueue_svm_memcpy B dst_ptr src_ptr sz events event_p cq cs =
     (case get_version B cq cs of
        (Inl e, cq1, cs1) \<Rightarrow> (Inl e, cq1, cs1)
      | (Inr v, cq1, cs1) \<Rightarrow>
        if v < 200 then (Inl (opencl_error CL_INVALID_DEVICE), cq1, cs1)
        else submit B (SVMMemcpy (\<not> event_p) dst_ptr src_ptr sz) events event_p cq1 cs1)"

definition enqueue_svm_memcpy_async ::
  "backend \<Rightarrow> host_ptr \<Rightarrow> host_ptr \<Rightarrow> size_t \<Rightarrow> wait_list
     \<Rightarrow> command_queue \<Rightarrow> cl_call list \<Rightarrow> cl_event outcome" where
  "enqueue_svm_memcpy_async B dst_ptr src_ptr sz events cq cs =
     return_event (enqueue_svm_memcpy B dst_ptr src_ptr sz events True cq cs)"

definition enqueue_svm_fill ::
  "backend \<Rightarrow> host_ptr \<Rightarrow> host_ptr \<Rightarrow> size_t \<Rightarrow> size_t \<Rightarrow> wait_list \<Rightarrow> bool
     \<Rightarrow> command_queue \<Rightarrow> cl_call list \<Rightarrow> cl_event option outcome" where
  "enqueue_svm_fill B svm_ptr pattern pattern_size sz events event_p cq cs =
     (case get_version B cq cs of
        (Inl e, cq1, cs1) \<Rightarrow> (Inl e, cq1, cs1)
      | (Inr v, cq1, cs1) \<Rightarrow>
        if v < 200 then (Inl (opencl_error CL_INVALID_DEVICE), cq1, cs1)
        else submit B (SVMMemFill svm_ptr pattern pattern_size sz) events event_p cq1 cs1)"

definition enqueue_svm_free ::
  "backend \<Rightarrow> host_ptr \<Rightarrow> wait_list \<Rightarrow> bool
     \<Rightarrow> command_queue \<Rightarrow> cl_call list \<Rightarrow> cl_event option outcome" where
  "enqueue_svm_free B svm_ptr events event_p cq cs =
     (case get_version B cq cs of
        (Inl e, cq1, cs1) \<Rightarrow> (Inl e, cq1, cs1)
      | (Inr v, cq1, cs1) \<Rightarrow>
        if v < 200 then (Inl (opencl_error CL_INVALID_DEVICE), cq1, cs1)
        else submit B (SVMFree [svm_ptr]) events event_p cq1 cs1)"

definition enqueue_svm_map ::
  "backend \<Rightarrow> host_ptr \<Rightarrow> size_t \<Rightarrow> nat \<Rightarrow> wait_list \<Rightarrow> bool
     \<Rightarrow> command_queue \<Rightarrow> cl_call list \<Rightarrow> cl_event option outcome" where
  "enqueue_svm_map B svm_ptr sz flags events event_p cq cs =
     (case get_version B cq cs of
        (Inl e, cq1, cs1) \<Rightarrow> (Inl e, cq1, cs1)
      | (Inr v, cq1, cs1) \<Rightarrow>
        if v < 200 then (Inl (opencl_error CL_INVALID_DEVICE), cq1, cs1)
        else submit B (SVMMap (\<not> event_p) flags svm_ptr sz) events event_p cq1 cs1)"

definition enqueue_svm_unmap ::
  "backend \<Rightarrow> host_ptr \<Rightarrow> wait_list \<Rightarrow> bool
     \<Rightarrow> command_queue \<Rightarrow> cl_call list \<Rightarrow> cl_event option outcome" where
  "enqueue_svm_unmap B svm_ptr events event_p cq cs =
     (case get_version B cq cs of
        (Inl e, cq1, cs1) \<Rightarrow> (Inl e, cq1, cs1)
      | (Inr v, cq1, cs1) \<Rightarrow>
        if v < 200 then (Inl (opencl_error CL_INVALID_DEVICE), cq1, cs1)
        else submit B (SVMUnmap svm_ptr) events event_p cq1 cs1)"

section \<open>Mapping an image and walking its elements\<close>

text \<open>
  \<^verbatim>\<open>enqueue_map_image\<close> (the pointer overload): the backend returns the mapped
  pointer and stores the row pitch and the slice pitch.
\<close>

definition enqueue_map_image ::
  "backend \<Rightarrow> image_object \<Rightarrow> nat \<Rightarrow> extent3 \<Rightarrow> extent3 \<Rightarrow> wait_list \<Rightarrow> bool
     \<Rightarrow> command_queue \<Rightarrow> cl_call list
     \<Rightarrow> ((host_ptr \<times> size_t \<times> size_t) \<times> cl_event option) outcome" where
  "enqueue_map_image B img flags origin region events event_p cq cs =
     (if m_queue cq = 0 then assert_fail cq cs
      else if img_context img \<noteq> queue_context B (m_queue cq) then assert_fail cq cs
      else (let call = clEnqueue (m_queue cq) (MapImage (img_mem img) (\<not> event_p) flags origin
                         region) events event_p;
                ret = cl_status B cs call
            in if ret \<noteq> CL_SUCCESS then (Inl (opencl_error ret), cq, cs @ [call])
               else (Inr (cl_map_out B cs call,
                          if event_p then Some (cl_event_out B cs call) else None),
                     cq, cs @ [call])))"

definition enqueue_unmap_mem_object ::
  "backend \<Rightarrow> cl_mem \<Rightarrow> host_ptr \<Rightarrow> wait_list \<Rightarrow> bool
     \<Rightarrow> command_queue \<Rightarrow> cl_call list \<Rightarrow> cl_event option outcome" where
  "enqueue_unmap_mem_object B mem mapped_ptr events event_p cq cs =
     (if m_queue cq = 0 then assert_fail cq cs
      else submit B (UnmapMemObject mem mapped_ptr) events event_p cq cs)"

text \<open>
  \<^verbatim>\<open>enqueue_unmap_buffer(const memory_object &mem_object, ...)\<close>: the memory
  object is given by its handle and its context.
\<close>

definition enqueue_unmap_buffer ::
  "backend \<Rightarrow> cl_mem \<Rightarrow> cl_context \<Rightarrow> host_ptr \<Rightarrow> wait_list \<Rightarrow> bool
     \<Rightarrow> command_queue \<Rightarrow> cl_call list \<Rightarrow> cl_event option outcome" where
  "enqueue_unmap_buffer B mem mem_context mapped_ptr events event_p cq cs =
     (if mem_context \<noteq> queue_context B (m_queue cq) then assert_fail cq cs
      else enqueue_unmap_mem_object B mem mapped_ptr events event_p cq cs)"

text \<open>
  The three nested loops of \<^verbatim>\<open>walk_image::operator()\<close> (and of the lambda of
  \<^verbatim>\<open>enqueue_walk_image\<close>, which is the same text). The caller's function
  \<open>walk_elemets\<close> receives the element pointer and the coordinates and acts on the
  host memory \<open>mem\<close>. The counters stay below \<open>region\<close>, so they never wrap;
  pointers are addresses.

  \<^verbatim>\<open>for(size_t w = origin3[0]; w < region3[0]; ++w) {
      walk_elemets((void *)pElem, w, h, d); pElem += element_size; }\<close>
\<close>

function walk_w ::
  "(host_ptr \<Rightarrow> size_t \<Rightarrow> size_t \<Rightarrow> size_t \<Rightarrow> 'm \<Rightarrow> 'm) \<Rightarrow> size_t \<Rightarrow> size_t \<Rightarrow> size_t
     \<Rightarrow> size_t \<Rightarrow> host_ptr \<Rightarrow> size_t \<Rightarrow> 'm \<Rightarrow> 'm" where
  "walk_w walk_elemets element_size region0 h d pElem w mem =
     (if w < region0
      then walk_w walk_elemets element_size region0 h d (pElem + element_size) (w + 1)
             (walk_elemets pElem w h d mem)
      else mem)"
  by pat_completeness auto
termination
  by (relation "measure (\<lambda>(f, es, r0, h, d, p, w, mem). r0 - w)") auto

text \<open>
  \<^verbatim>\<open>for(size_t h = origin3[1]; h < region3[1]; ++h) {
      char *pElem = pImage1D; ...; pImage1D += row_pitch; }\<close>
\<close>

function walk_h ::
  "(host_ptr \<Rightarrow> size_t \<Rightarrow> size_t \<Rightarrow> size_t \<Rightarrow> 'm \<Rightarrow> 'm) \<Rightarrow> size_t \<Rightarrow> size_t \<Rightarrow> size_t
     \<Rightarrow> size_t \<Rightarrow> size_t \<Rightarrow> size_t \<Rightarrow> host_ptr \<Rightarrow> size_t \<Rightarrow> 'm \<Rightarrow> 'm" where
  "walk_h walk_elemets element_size row_pitch origin0 region0 region1 d pImage1D h mem =
     (if h < region1
      then walk_h walk_elemets element_size row_pitch origin0 region0 region1 d
             (pImage1D + row_pitch) (h + 1)
             (walk_w walk_elemets element_size region0 h d pImage1D origin0 mem)
      else mem)"
  by pat_completeness auto
termination
  by (relation "measure (\<lambda>(f, es, rp, o0, r0, r1, d, p, h, mem). r1 - h)") auto

text \<open>
  \<^verbatim>\<open>for(size_t d = origin3[2]; d < region3[2]; ++d) {
      char * pImage1D = pImage2D; ...; pImage2D += slice_pitch; }\<close>
\<close>

function walk_d ::
  "(host_ptr \<Rightarrow> size_t \<Rightarrow> size_t \<Rightarrow> size_t \<Rightarrow> 'm \<Rightarrow> 'm) \<Rightarrow> size_t \<Rightarrow> size_t \<Rightarrow> size_t
     \<Rightarrow> size_t \<Rightarrow> size_t \<Rightarrow> size_t \<Rightarrow> size_t \<Rightarrow> size_t \<Rightarrow> host_ptr \<Rightarrow> size_t \<Rightarrow> 'm \<Rightarrow> 'm" where
  "walk_d walk_elemets element_size row_pitch slice_pitch origin0 origin1 region0 region1
       region2 pImage2D d mem =
     (if d < region2
      then walk_d walk_elemets element_size row_pitch slice_pitch origin0 origin1 region0
             region1 region2 (pImage2D + slice_pitch) (d + 1)
             (walk_h walk_elemets element_size row_pitch origin0 region0 region1 d pImage2D
                origin1 mem)
      else mem)"
  by pat_completeness auto
termination
  by (relation "measure (\<lambda>(f, es, rp, sp, o0, o1, r0, r1, r2, p, d, mem). r2 - d)") auto

text \<open>
  The walk that \<^verbatim>\<open>func\<close> performs, from \<^verbatim>\<open>char * pImage2D = pImage3D\<close>. (The
  final \<^verbatim>\<open>user_ev.set_status(event::complete)\<close> of the asynchronous case is a
  later call of the callback and not part of the model.)
\<close>

definition walk_image ::
  "(host_ptr \<Rightarrow> size_t \<Rightarrow> size_t \<Rightarrow> size_t \<Rightarrow> 'm \<Rightarrow> 'm) \<Rightarrow> host_ptr \<Rightarrow> extent3 \<Rightarrow> extent3
     \<Rightarrow> size_t \<Rightarrow> size_t \<Rightarrow> size_t \<Rightarrow> 'm \<Rightarrow> 'm" where
  "walk_image walk_elemets pImage3D origin3 region3 row_pitch slice_pitch element_size mem =
     (case origin3 of (origin0, origin1, origin2) \<Rightarrow>
      case region3 of (region0, region1, region2) \<Rightarrow>
        walk_d walk_elemets element_size row_pitch slice_pitch origin0 origin1 region0
          region1 region2 pImage3D origin2 mem)"

text \<open>
  The host side of a walk: the memory that \<open>walk_elemets\<close> acts on and the callbacks
  registered on events with \<^verbatim>\<open>set_callback\<close>.
\<close>

record 'm host =
  memory :: 'm
  callbacks :: "(cl_event \<times> ('m \<Rightarrow> 'm)) list"

text \<open>
  \<^verbatim>\<open>enqueue_walk_image\<close>. \<open>origin\<close> and \<open>region\<close> are the pointers that may be
  null, \<open>pevent\<close> says whether \<^verbatim>\<open>event * pevent\<close> is non-null (the asynchronous
  execution). \<^verbatim>\<open>user_event(get_context())\<close> and \<^verbatim>\<open>set_callback\<close> are logged as
  the backend calls they make.
\<close>

definition enqueue_walk_image ::
  "backend \<Rightarrow> image_object \<Rightarrow> (host_ptr \<Rightarrow> size_t \<Rightarrow> size_t \<Rightarrow> size_t \<Rightarrow> 'm \<Rightarrow> 'm) \<Rightarrow> nat
     \<Rightarrow> extent3 option \<Rightarrow> extent3 option \<Rightarrow> wait_list \<Rightarrow> bool
     \<Rightarrow> command_queue \<Rightarrow> cl_call list \<Rightarrow> 'm host
     \<Rightarrow> (error + cl_event option) \<times> command_queue \<times> cl_call list \<times> 'm host" where
  "enqueue_walk_image B img walk_elemets flags origin region events pevent cq cs H =
     (if m_queue cq = 0 then (Inl assertion_failed, cq, cs, H)
      else if img_context img \<noteq> queue_context B (m_queue cq)
        then (Inl assertion_failed, cq, cs, H)
      else
        let origin3 = (case origin of None \<Rightarrow> (0, 0, 0) | Some og \<Rightarrow> og);
            region3 = (case region of
                         None \<Rightarrow> (img_width img, max 1 (img_height img), max 1 (img_depth img))
                       | Some rg \<Rightarrow> rg);
            create = clCreateUserEvent (queue_context B (m_queue cq));
            user_ev = (if pevent then cl_event_out B cs create else 0);
            cs0 = (if pevent then cs @ [create] else cs);
            unmap_wait = (if pevent then [user_ev] else [])
        in case enqueue_map_image B img flags origin3 region3 events pevent cq cs0 of
             (Inl e, cq1, cs1) \<Rightarrow> (Inl e, cq1, cs1, H)
           | (Inr ((pImage3D, row_pitch, slice_pitch), map_event), cq1, cs1) \<Rightarrow>
               let func = walk_image walk_elemets pImage3D origin3 region3 row_pitch
                            slice_pitch (img_element_size img);
                   mev = (case map_event of None \<Rightarrow> 0 | Some e \<Rightarrow> e);
                   cs2 = (if pevent then cs1 @ [clSetEventCallback mev] else cs1);
                   H1 = (if pevent then H\<lparr>callbacks := callbacks H @ [(mev, func)]\<rparr>
                         else H\<lparr>memory := func (memory H)\<rparr>)
               in case enqueue_unmap_buffer B (img_mem img) (img_context img) pImage3D
                         unmap_wait pevent cq1 cs2 of
                    (r, cq2, cs3) \<Rightarrow> (r, cq2, cs3, H1))"

text \<open>
  \<^verbatim>\<open>struct fillc\<close>: the constructor copies 16 bytes of the colour, and the call
  operator copies the first \<^verbatim>\<open>m_element_size\<close> of them to the element. The host
  memory maps an address to a byte.
\<close>

record fillc =
  m_element_size :: size_t
  m_fill_color :: "nat list"

definition fillc_init :: "size_t \<Rightarrow> nat list \<Rightarrow> fillc" where
  "fillc_init element_size fill_color =
     \<lparr>m_element_size = element_size, m_fill_color = take 16 fill_color\<rparr>"

definition fillc_call ::
  "fillc \<Rightarrow> host_ptr \<Rightarrow> size_t \<Rightarrow> size_t \<Rightarrow> size_t \<Rightarrow> (host_ptr \<Rightarrow> nat) \<Rightarrow> (host_ptr \<Rightarrow> nat)" where
  "fillc_call f pelem x y z mem =
     fold (\<lambda>(i, b) m. m(pelem + i := b))
       (zip [0..<m_element_size f] (m_fill_color f)) mem"

text \<open>\<^verbatim>\<open>enqueue_rawfill_image_walking\<close> (the pointer overload).\<close>

definition enqueue_rawfill_image_walking ::
  "backend \<Rightarrow> image_object \<Rightarrow> nat list \<Rightarrow> extent3 option \<Rightarrow> extent3 option \<Rightarrow> wait_list
     \<Rightarrow> bool \<Rightarrow> command_queue \<Rightarrow> cl_call list \<Rightarrow> (host_ptr \<Rightarrow> nat) host
     \<Rightarrow> (error + cl_event option) \<times> command_queue \<times> cl_call list \<times> (host_ptr \<Rightarrow> nat) host" where
  "enqueue_rawfill_image_walking B img fill_color origin region events event_p cq cs H =
     (let element_size = img_element_size img;
          f = fillc_init element_size fill_color
      in enqueue_walk_image B img (fillc_call f) CL_MAP_WRITE origin region events event_p
           cq cs H)"

text \<open>
  The reference for the walk, written from the description of the helper and not from
  its loops: the elements of a three-dimensional region of extent \<open>region\<close> that
  starts at \<open>origin\<close>, depth outermost and width innermost, each with its address in
  a mapping that starts at \<open>base\<close> with the given pitches.
\<close>

definition region_elements ::
  "host_ptr \<Rightarrow> extent3 \<Rightarrow> extent3 \<Rightarrow> size_t \<Rightarrow> size_t \<Rightarrow> size_t
     \<Rightarrow> (host_ptr \<times> size_t \<times> size_t \<times> size_t) list" where
  "region_elements base origin3 region3 row_pitch slice_pitch element_size =
     (case origin3 of (origin0, origin1, origin2) \<Rightarrow>
      case region3 of (region0, region1, region2) \<Rightarrow>
        concat (map (\<lambda>k.
          concat (map (\<lambda>j.
            map (\<lambda>i. (base + k * slice_pitch + j * row_pitch + i * element_size,
                       origin0 + i, origin1 + j, origin2 + k))
              [0..<region0]) [0..<region1])) [0..<region2]))"

text \<open>The caller's function that records each call it receives.\<close>

definition record_visit ::
  "host_ptr \<Rightarrow> size_t \<Rightarrow> size_t \<Rightarrow> size_t \<Rightarrow> (host_ptr \<times> size_t \<times> size_t \<times> size_t) list
     \<Rightarrow> (host_ptr \<times> size_t \<times> size_t \<times> size_t) list" where
  "record_visit pElem w h d visits = visits @ [(pElem, w, h, d)]"

section \<open>The resolved version\<close>

text \<open>
  Whether \<open>get_version\<close> resolves on a queue object (the version is cached, or the
  query of the device succeeds), what it resolves to, and the object and the log after
  the call.
\<close>

definition version_resolves :: "backend \<Rightarrow> command_queue \<Rightarrow> cl_call list \<Rightarrow> bool" where
  "version_resolves B cq cs =
     (if m_version cq = 0
      then cl_status B cs (QueryDeviceVersion (m_queue cq)) = CL_SUCCESS
      else True)"

definition resolved_version :: "backend \<Rightarrow> command_queue \<Rightarrow> uint" where
  "resolved_version B cq = (if m_version cq = 0 then device_version B (m_queue cq) else m_version cq)"

definition version_query :: "command_queue \<Rightarrow> cl_call list \<Rightarrow> cl_call list" where
  "version_query cq cs = (if m_version cq = 0 then cs @ [QueryDeviceVersion (m_queue cq)] else cs)"

definition resolved :: "backend \<Rightarrow> command_queue \<Rightarrow> command_queue" where
  "resolved B cq = cq\<lparr>m_version := resolved_version B cq\<rparr>"

section \<open>Concrete backends and objects\<close>

text \<open>
  The net count of references to \<open>q\<close>: the live holders and the releases logged,
  less the retains logged.
\<close>

definition balance :: "cl_command_queue \<Rightarrow> machine \<Rightarrow> int" where
  "balance q M = int (holders q M) + int (releases q (calls M)) - int (retains q (calls M))"

text \<open>
  A backend that accepts every call, for a device of the given version; every queue
  is in context 7, events are numbered by the position of their call, and a mapping
  starts at address 1000 with a row pitch of 64 and a slice pitch of 256 bytes.
\<close>

definition accepting_backend :: "uint \<Rightarrow> backend" where
  "accepting_backend v =
     \<lparr>queue_context = (\<lambda>q. 7), device_version = (\<lambda>q. v), cl_status = (\<lambda>cs c. 0),
      cl_event_out = (\<lambda>cs c. Suc (length cs)), cl_map_out = (\<lambda>cs c. (1000, 64, 256))\<rparr>"

text \<open>
  The same backend, returning the status \<open>ret\<close> to every call but the version
  query, which it answers.
\<close>

definition rejecting_backend :: "uint \<Rightarrow> cl_int \<Rightarrow> backend" where
  "rejecting_backend v ret =
     (accepting_backend v)
       \<lparr>cl_status := (\<lambda>cs c. case c of QueryDeviceVersion q \<Rightarrow> 0 | _ \<Rightarrow> ret)\<rparr>"

text \<open>
  The accepting backend, except that it answers the version query on the null queue
  with \<^verbatim>\<open>CL_INVALID_COMMAND_QUEUE\<close>.
\<close>

definition null_checking_backend :: "uint \<Rightarrow> backend" where
  "null_checking_backend v =
     (accepting_backend v)
       \<lparr>cl_status := (\<lambda>cs c. case c of
                        QueryDeviceVersion q \<Rightarrow> (if q = 0 then CL_INVALID_COMMAND_QUEUE else 0)
                      | _ \<Rightarrow> 0)\<rparr>"

definition demo_buffer :: buffer where
  "demo_buffer = \<lparr>buf_mem = 5, buf_context = 7, buf_size = 10\<rparr>"

definition demo_kernel :: kernel where
  "demo_kernel = \<lparr>krn_id = 9, krn_context = 7\<rparr>"

definition demo_image :: image_object where
  "demo_image = \<lparr>img_mem = 6, img_context = 7, img_width = 4, img_height = 0, img_depth = 0,
                  img_element_size = 4\<rparr>"

definition demo_machine :: machine where
  "demo_machine =
     \<lparr>heap = [Some \<lparr>m_queue = 3, m_version = 120\<rparr>, Some \<lparr>m_queue = 0, m_version = 0\<rparr>],
      calls = []\<rparr>"

section \<open>Verified properties\<close>

subsection \<open>Reference counting of the native handle\<close>

lemma filter_update_count:
  "i < length xs \<Longrightarrow>
   int (length (filter P (xs[i := v]))) =
     int (length (filter P xs)) - (if P (xs ! i) then 1 else 0) + (if P v then 1 else 0)"
proof (induction xs arbitrary: i)
  case Nil
  then show ?case by simp
next
  case (Cons x xs)
  show ?case
  proof (cases i)
    case 0
    then show ?thesis by simp
  next
    case (Suc j)
    with Cons.prems have "j < length xs" by simp
    from Cons.IH [OF this] Suc show ?thesis by (auto split: if_splits)
  qed
qed

lemma lookup_Some: "lookup M a = Some c \<Longrightarrow> a < length (heap M) \<and> heap M ! a = Some c"
  by (auto simp: lookup_def split: if_splits)

lemma retains_retain_if:
  "retains q (retain_if p cs) = retains q cs + (if q = p \<and> q \<noteq> 0 then 1 else 0)"
  by (auto simp add: retains_def retain_if_def)

lemma retains_release_if: "retains q (release_if p cs) = retains q cs"
  by (simp add: retains_def release_if_def)

lemma releases_release_if:
  "releases q (release_if p cs) = releases q cs + (if q = p \<and> q \<noteq> 0 then 1 else 0)"
  by (auto simp add: releases_def release_if_def)

lemma releases_retain_if: "releases q (retain_if p cs) = releases q cs"
  by (simp add: releases_def retain_if_def)

lemmas log_counts = retains_retain_if retains_release_if releases_release_if releases_retain_if

lemma copy_construct_balance:
  "q \<noteq> 0 \<Longrightarrow> copy_construct other M = Inr M' \<Longrightarrow> balance q M' = balance q M"
  by (auto simp: copy_construct_def balance_def holders_def holds_def log_counts
      split: option.splits)

lemma copy_assign_balance:
  "q \<noteq> 0 \<Longrightarrow> copy_assign this other M = Inr M' \<Longrightarrow> balance q M' = balance q M"
  by (auto simp: copy_assign_def balance_def holders_def holds_def log_counts Let_def
      filter_update_count dest!: lookup_Some split: option.splits if_splits)

lemma move_construct_balance:
  "q \<noteq> 0 \<Longrightarrow> move_construct other M = Inr M' \<Longrightarrow> balance q M' = balance q M"
  by (auto simp: move_construct_def balance_def holders_def holds_def log_counts Let_def
      filter_update_count dest!: lookup_Some split: option.splits if_splits)

lemma move_assign_balance:
  "q \<noteq> 0 \<Longrightarrow> move_assign this other M = Inr M' \<Longrightarrow> balance q M' = balance q M"
  by (auto simp: move_assign_def balance_def holders_def holds_def log_counts Let_def
      filter_update_count nth_list_update dest!: lookup_Some split: option.splits if_splits)

lemma destroy_balance:
  "q \<noteq> 0 \<Longrightarrow> destroy B this M = Inr M' \<Longrightarrow> balance q M' = balance q M"
  by (auto simp: destroy_def balance_def holders_def holds_def releases_def retains_def Let_def
      filter_update_count dest!: lookup_Some split: option.splits if_splits)

lemma step_balance:
  "q \<noteq> 0 \<Longrightarrow> step B x M = Inr M' \<Longrightarrow> balance q M' = balance q M"
  by (cases x) (simp_all add: copy_construct_balance copy_assign_balance move_construct_balance
      move_assign_balance destroy_balance)

lemma run_balance:
  "q \<noteq> 0 \<Longrightarrow> run B xs M = Inr M' \<Longrightarrow> balance q M' = balance q M"
proof (induction xs arbitrary: M)
  case Nil
  then show ?case by simp
next
  case (Cons x xs)
  from Cons.prems(2) obtain M1 where s: "step B x M = Inr M1" and r: "run B xs M1 = Inr M'"
    by (auto split: sum.splits)
  from Cons.IH [OF Cons.prems(1) r] step_balance [OF Cons.prems(1) s] show ?case by simp
qed

lemma copy_construct_effect:
  "lookup M other = Some ob \<Longrightarrow>
   \<exists>M'. copy_construct other M = Inr M' \<and>
     lookup M' (length (heap M)) = Some ob \<and>
     retains q (calls M') = retains q (calls M) + (if q = m_queue ob \<and> q \<noteq> 0 then 1 else 0) \<and>
     releases q (calls M') = releases q (calls M)"
  by (auto simp: copy_construct_def lookup_def log_counts)

lemma copy_assign_effect:
  "lookup M this = Some t \<Longrightarrow> lookup M other = Some ob \<Longrightarrow> this \<noteq> other \<Longrightarrow>
   \<exists>M'. copy_assign this other M = Inr M' \<and>
     lookup M' this = Some ob \<and>
     retains q (calls M') = retains q (calls M) + (if q = m_queue ob \<and> q \<noteq> 0 then 1 else 0) \<and>
     releases q (calls M') = releases q (calls M) + (if q = m_queue t \<and> q \<noteq> 0 then 1 else 0)"
  by (auto simp: copy_assign_def lookup_def log_counts Let_def split: if_splits)

lemma move_construct_effect:
  "lookup M other = Some ob \<Longrightarrow>
   \<exists>M'. move_construct other M = Inr M' \<and>
     calls M' = calls M \<and> lookup M' (length (heap M)) = Some ob \<and>
     lookup M' other = Some \<lparr>m_queue = 0, m_version = 0\<rparr>"
  by (auto simp: move_construct_def lookup_def nth_append split: if_splits)

lemma move_assign_effect:
  "lookup M this = Some t \<Longrightarrow> lookup M other = Some ob \<Longrightarrow>
   \<exists>M'. move_assign this other M = Inr M' \<and>
     retains q (calls M') = retains q (calls M) \<and>
     releases q (calls M') = releases q (calls M) + (if q = m_queue t \<and> q \<noteq> 0 then 1 else 0) \<and>
     map_option m_queue (lookup M' other) = Some 0 \<and>
     (if this = other then True else lookup M' this = Some ob)"
  by (auto simp: move_assign_def lookup_def log_counts Let_def split: if_splits)

lemma destroy_effect:
  "lookup M this = Some t \<Longrightarrow> destroy B this M = Inr M' \<Longrightarrow>
     lookup M' this = None \<and>
     retains q (calls M') = retains q (calls M) \<and>
     releases q (calls M') = releases q (calls M) + (if q = m_queue t \<and> q \<noteq> 0 then 1 else 0)"
  by (auto simp: destroy_def lookup_def releases_def retains_def split: if_splits)

text \<open>
  Claim C6. Each conjunct is about objects that are alive. (1) Copy construction
  succeeds, the new object (at the next free address) equals the source, and the log
  gains exactly one retain of the source's handle if that handle is non-null, none
  otherwise, and no release. (2) Copy assignment from a different object makes the
  target equal to the source, retains the source's non-null handle exactly once and
  releases the target's previous non-null handle exactly once. (3) Move construction
  makes no backend call, gives the new object the source's handle and leaves the source
  null. (4) Move assignment retains nothing, releases the target's previous non-null
  handle once, leaves the source with a null handle, and a target different from the
  source ends equal to the source's previous value. (5) Destruction removes the object
  and releases its handle exactly once if the handle is non-null, and makes no call if
  it is null. (6) Over any sequence of copy constructions, copy assignments, move
  constructions, move assignments and destructions that runs to its end, for every
  non-null handle the number of live holders plus releases less retains does not
  change; so the releases made by the sequence never exceed its retains plus the
  objects that held the handle at the start.
\<close>

theorem command_queue_reference_counting:
  "(lookup M1 other1 = Some ob1 \<longrightarrow>
      (\<exists>M'. copy_construct other1 M1 = Inr M' \<and>
         lookup M' (length (heap M1)) = Some ob1 \<and>
         retains q (calls M') =
           retains q (calls M1) + (if q = m_queue ob1 \<and> q \<noteq> 0 then 1 else 0) \<and>
         releases q (calls M') = releases q (calls M1))) \<and>
   (lookup M2 this2 = Some t2 \<and> lookup M2 other2 = Some ob2 \<and> this2 \<noteq> other2 \<longrightarrow>
      (\<exists>M'. copy_assign this2 other2 M2 = Inr M' \<and>
         lookup M' this2 = Some ob2 \<and>
         retains q (calls M') =
           retains q (calls M2) + (if q = m_queue ob2 \<and> q \<noteq> 0 then 1 else 0) \<and>
         releases q (calls M') =
           releases q (calls M2) + (if q = m_queue t2 \<and> q \<noteq> 0 then 1 else 0))) \<and>
   (lookup M3 other3 = Some ob3 \<longrightarrow>
      (\<exists>M'. move_construct other3 M3 = Inr M' \<and>
         calls M' = calls M3 \<and> lookup M' (length (heap M3)) = Some ob3 \<and>
         lookup M' other3 = Some \<lparr>m_queue = 0, m_version = 0\<rparr>)) \<and>
   (lookup M4 this4 = Some t4 \<and> lookup M4 other4 = Some ob4 \<longrightarrow>
      (\<exists>M'. move_assign this4 other4 M4 = Inr M' \<and>
         retains q (calls M') = retains q (calls M4) \<and>
         releases q (calls M') =
           releases q (calls M4) + (if q = m_queue t4 \<and> q \<noteq> 0 then 1 else 0) \<and>
         map_option m_queue (lookup M' other4) = Some 0 \<and>
         (if this4 = other4 then True else lookup M' this4 = Some ob4))) \<and>
   (lookup M5 this5 = Some t5 \<and> destroy B this5 M5 = Inr M5' \<longrightarrow>
      lookup M5' this5 = None \<and>
      retains q (calls M5') = retains q (calls M5) \<and>
      releases q (calls M5') =
        releases q (calls M5) + (if q = m_queue t5 \<and> q \<noteq> 0 then 1 else 0)) \<and>
   (q \<noteq> 0 \<and> run B xs M6 = Inr M6' \<longrightarrow>
      int (holders q M6') + int (releases q (calls M6')) - int (retains q (calls M6')) =
        int (holders q M6) + int (releases q (calls M6)) - int (retains q (calls M6)) \<and>
      releases q (calls M6') + retains q (calls M6) \<le>
        releases q (calls M6) + retains q (calls M6') + holders q M6)"
proof (intro conjI impI)
  assume "lookup M1 other1 = Some ob1"
  then show "\<exists>M'. copy_construct other1 M1 = Inr M' \<and>
         lookup M' (length (heap M1)) = Some ob1 \<and>
         retains q (calls M') =
           retains q (calls M1) + (if q = m_queue ob1 \<and> q \<noteq> 0 then 1 else 0) \<and>
         releases q (calls M') = releases q (calls M1)"
    by (rule copy_construct_effect)
next
  assume "lookup M2 this2 = Some t2 \<and> lookup M2 other2 = Some ob2 \<and> this2 \<noteq> other2"
  then show "\<exists>M'. copy_assign this2 other2 M2 = Inr M' \<and>
         lookup M' this2 = Some ob2 \<and>
         retains q (calls M') =
           retains q (calls M2) + (if q = m_queue ob2 \<and> q \<noteq> 0 then 1 else 0) \<and>
         releases q (calls M') =
           releases q (calls M2) + (if q = m_queue t2 \<and> q \<noteq> 0 then 1 else 0)"
    using copy_assign_effect [of M2 this2 t2 other2 ob2 q] by simp
next
  assume "lookup M3 other3 = Some ob3"
  then show "\<exists>M'. move_construct other3 M3 = Inr M' \<and>
         calls M' = calls M3 \<and> lookup M' (length (heap M3)) = Some ob3 \<and>
         lookup M' other3 = Some \<lparr>m_queue = 0, m_version = 0\<rparr>"
    by (rule move_construct_effect)
next
  assume "lookup M4 this4 = Some t4 \<and> lookup M4 other4 = Some ob4"
  then show "\<exists>M'. move_assign this4 other4 M4 = Inr M' \<and>
         retains q (calls M') = retains q (calls M4) \<and>
         releases q (calls M') =
           releases q (calls M4) + (if q = m_queue t4 \<and> q \<noteq> 0 then 1 else 0) \<and>
         map_option m_queue (lookup M' other4) = Some 0 \<and>
         (if this4 = other4 then True else lookup M' this4 = Some ob4)"
    using move_assign_effect [of M4 this4 t4 other4 ob4 q] by simp
next
  assume a: "lookup M5 this5 = Some t5 \<and> destroy B this5 M5 = Inr M5'"
  from a destroy_effect [of M5 this5 t5 B M5' q]
  show "lookup M5' this5 = None" by simp
  from a destroy_effect [of M5 this5 t5 B M5' q]
  show "retains q (calls M5') = retains q (calls M5)" by simp
  from a destroy_effect [of M5 this5 t5 B M5' q]
  show "releases q (calls M5') =
        releases q (calls M5) + (if q = m_queue t5 \<and> q \<noteq> 0 then 1 else 0)" by simp
next
  assume a: "q \<noteq> 0 \<and> run B xs M6 = Inr M6'"
  then have "q \<noteq> 0" and "run B xs M6 = Inr M6'" by simp_all
  then have b: "balance q M6' = balance q M6" by (rule run_balance)
  from b show "int (holders q M6') + int (releases q (calls M6')) - int (retains q (calls M6')) =
        int (holders q M6) + int (releases q (calls M6)) - int (retains q (calls M6))"
    by (simp add: balance_def)
  from b show "releases q (calls M6') + retains q (calls M6) \<le>
        releases q (calls M6) + retains q (calls M6') + holders q M6"
    by (simp add: balance_def)
qed

lemma demo_lookup:
  "lookup demo_machine 0 = Some \<lparr>m_queue = 3, m_version = 120\<rparr>"
  "lookup demo_machine 1 = Some \<lparr>m_queue = 0, m_version = 0\<rparr>"
  by (simp_all add: lookup_def demo_machine_def)

theorem command_queue_reference_counting_witness:
  "lookup demo_machine 0 = Some \<lparr>m_queue = 3, m_version = 120\<rparr> \<and>
   lookup demo_machine 1 = Some \<lparr>m_queue = 0, m_version = 0\<rparr> \<and>
   (\<exists>M'. copy_construct 0 demo_machine = Inr M' \<and>
      lookup M' 2 = Some \<lparr>m_queue = 3, m_version = 120\<rparr> \<and>
      retains 3 (calls M') = 1 \<and> releases 3 (calls M') = 0) \<and>
   (\<exists>M'. copy_assign 1 0 demo_machine = Inr M' \<and>
      lookup M' 1 = Some \<lparr>m_queue = 3, m_version = 120\<rparr> \<and>
      retains 3 (calls M') = 1 \<and> releases 3 (calls M') = 0) \<and>
   (\<exists>M'. move_construct 0 demo_machine = Inr M' \<and> calls M' = [] \<and>
      lookup M' 2 = Some \<lparr>m_queue = 3, m_version = 120\<rparr> \<and>
      lookup M' 0 = Some \<lparr>m_queue = 0, m_version = 0\<rparr>) \<and>
   (\<exists>M'. move_assign 0 1 demo_machine = Inr M' \<and>
      retains 3 (calls M') = 0 \<and> releases 3 (calls M') = 1 \<and>
      map_option m_queue (lookup M' 1) = Some 0 \<and>
      lookup M' 0 = Some \<lparr>m_queue = 0, m_version = 0\<rparr>) \<and>
   destroy (accepting_backend 120) 0 demo_machine =
     Inr \<lparr>heap = [None, Some \<lparr>m_queue = 0, m_version = 0\<rparr>],
          calls = [clReleaseCommandQueue 3]\<rparr> \<and>
   releases 3 [clReleaseCommandQueue 3] = 1 \<and>
   run (accepting_backend 120) [CopyConstruct 0, MoveAssign 1 0, Destroy 2, Destroy 1]
       demo_machine =
     Inr \<lparr>heap = [Some \<lparr>m_queue = 0, m_version = 120\<rparr>, None, None],
          calls = [clRetainCommandQueue 3, clReleaseCommandQueue 3, clReleaseCommandQueue 3]\<rparr> \<and>
   releases 3 [clRetainCommandQueue 3, clReleaseCommandQueue 3, clReleaseCommandQueue 3] \<le>
     retains 3 [clRetainCommandQueue 3, clReleaseCommandQueue 3, clReleaseCommandQueue 3] + 1"
proof -
  have d: "destroy (accepting_backend 120) 0 demo_machine =
     Inr \<lparr>heap = [None, Some \<lparr>m_queue = 0, m_version = 0\<rparr>],
          calls = [clReleaseCommandQueue 3]\<rparr>"
    by (simp add: destroy_def lookup_def demo_machine_def accepting_backend_def CL_SUCCESS_def)
  have r: "run (accepting_backend 120) [CopyConstruct 0, MoveAssign 1 0, Destroy 2, Destroy 1]
       demo_machine =
     Inr \<lparr>heap = [Some \<lparr>m_queue = 0, m_version = 120\<rparr>, None, None],
          calls = [clRetainCommandQueue 3, clReleaseCommandQueue 3, clReleaseCommandQueue 3]\<rparr>"
    by (simp add: copy_construct_def move_assign_def destroy_def lookup_def demo_machine_def
        accepting_backend_def CL_SUCCESS_def retain_if_def release_if_def Let_def)
  have h: "holders 3 demo_machine = 1"
    by (simp add: holders_def holds_def demo_machine_def)
  note T = command_queue_reference_counting [where ?M1.0 = demo_machine and ?other1.0 = 0
      and ?ob1.0 = "\<lparr>m_queue = 3, m_version = 120\<rparr>"
      and ?M2.0 = demo_machine and ?this2.0 = 1 and ?other2.0 = 0
      and ?t2.0 = "\<lparr>m_queue = 0, m_version = 0\<rparr>" and ?ob2.0 = "\<lparr>m_queue = 3, m_version = 120\<rparr>"
      and ?M3.0 = demo_machine and ?other3.0 = 0 and ?ob3.0 = "\<lparr>m_queue = 3, m_version = 120\<rparr>"
      and ?M4.0 = demo_machine and ?this4.0 = 0 and ?other4.0 = 1
      and ?t4.0 = "\<lparr>m_queue = 3, m_version = 120\<rparr>" and ?ob4.0 = "\<lparr>m_queue = 0, m_version = 0\<rparr>"
      and ?M5.0 = demo_machine and ?this5.0 = 0 and ?t5.0 = "\<lparr>m_queue = 3, m_version = 120\<rparr>"
      and B = "accepting_backend 120"
      and ?M5' = "\<lparr>heap = [None, Some \<lparr>m_queue = 0, m_version = 0\<rparr>],
          calls = [clReleaseCommandQueue 3]\<rparr>"
      and q = 3 and xs = "[CopyConstruct 0, MoveAssign 1 0, Destroy 2, Destroy 1]"
      and ?M6.0 = demo_machine
      and ?M6' = "\<lparr>heap = [Some \<lparr>m_queue = 0, m_version = 120\<rparr>, None, None],
          calls = [clRetainCommandQueue 3, clReleaseCommandQueue 3, clReleaseCommandQueue 3]\<rparr>"]
  have c: "calls demo_machine = []" "length (heap demo_machine) = 2"
    by (simp_all add: demo_machine_def)
  have ne: "(1::nat) \<noteq> 0" "(3::nat) \<noteq> 0" by simp_all
  from T [THEN conjunct1, THEN mp, OF demo_lookup(1)]
  have w1: "\<exists>M'. copy_construct 0 demo_machine = Inr M' \<and>
      lookup M' 2 = Some \<lparr>m_queue = 3, m_version = 120\<rparr> \<and>
      retains 3 (calls M') = 1 \<and> releases 3 (calls M') = 0"
    by (simp add: c retains_def releases_def)
  from T [THEN conjunct2, THEN conjunct1, THEN mp,
      OF conjI [OF demo_lookup(2) conjI [OF demo_lookup(1) ne(1)]]]
  have w2: "\<exists>M'. copy_assign 1 0 demo_machine = Inr M' \<and>
      lookup M' 1 = Some \<lparr>m_queue = 3, m_version = 120\<rparr> \<and>
      retains 3 (calls M') = 1 \<and> releases 3 (calls M') = 0"
    by (simp add: c retains_def releases_def)
  from T [THEN conjunct2, THEN conjunct2, THEN conjunct1, THEN mp, OF demo_lookup(1)]
  have w3: "\<exists>M'. move_construct 0 demo_machine = Inr M' \<and> calls M' = [] \<and>
      lookup M' 2 = Some \<lparr>m_queue = 3, m_version = 120\<rparr> \<and>
      lookup M' 0 = Some \<lparr>m_queue = 0, m_version = 0\<rparr>"
    by (simp add: c)
  from T [THEN conjunct2, THEN conjunct2, THEN conjunct2, THEN conjunct1, THEN mp,
      OF conjI [OF demo_lookup(1) demo_lookup(2)]]
  have w4: "\<exists>M'. move_assign 0 1 demo_machine = Inr M' \<and>
      retains 3 (calls M') = 0 \<and> releases 3 (calls M') = 1 \<and>
      map_option m_queue (lookup M' 1) = Some 0 \<and>
      lookup M' 0 = Some \<lparr>m_queue = 0, m_version = 0\<rparr>"
    by (simp add: c retains_def releases_def)
  from T [THEN conjunct2, THEN conjunct2, THEN conjunct2, THEN conjunct2, THEN conjunct1,
      THEN mp, OF conjI [OF demo_lookup(1) d]]
  have w5: "releases 3 [clReleaseCommandQueue 3] = 1"
    by (simp add: c retains_def releases_def)
  from T [THEN conjunct2, THEN conjunct2, THEN conjunct2, THEN conjunct2, THEN conjunct2,
      THEN mp, OF conjI [OF ne(2) r]]
  have w6: "releases 3 [clRetainCommandQueue 3, clReleaseCommandQueue 3, clReleaseCommandQueue 3] \<le>
     retains 3 [clRetainCommandQueue 3, clReleaseCommandQueue 3, clReleaseCommandQueue 3] + 1"
    by (simp add: c h retains_def releases_def)
  from demo_lookup w1 w2 w3 w4 d w5 r w6 show ?thesis by blast
qed

subsection \<open>The cached device version\<close>

lemma get_version_query_fails:
  "m_version cq = 0 \<Longrightarrow> cl_status B cs (QueryDeviceVersion (m_queue cq)) \<noteq> CL_SUCCESS \<Longrightarrow>
   get_version B cq cs =
     (Inl (opencl_error (cl_status B cs (QueryDeviceVersion (m_queue cq)))), cq,
      cs @ [QueryDeviceVersion (m_queue cq)])"
  by (simp add: get_version_def Let_def)

text \<open>
  Claim C8. The cached version 0 means unknown. A queue constructed null, or from a raw
  native id (retained or adopted), starts with the cached version 0. A call of
  \<open>get_version\<close> on a cache of 0 makes exactly one query of the device and, when the
  query succeeds, returns its answer and stores it; on a cache other than 0 it returns
  the cache and neither calls the backend nor changes the object. So once a call has
  returned a version other than 0, that version is stored, and every later call,
  whatever was logged in between, returns it without a query. (A query that fails
  throws and leaves the cache at 0: lemma \<open>get_version_query_fails\<close>.)
\<close>

theorem get_version_memoized:
  "lookup (construct_null M) (length (heap M)) = Some \<lparr>m_queue = 0, m_version = 0\<rparr> \<and>
   lookup (construct_from_id q r M) (length (heap M)) = Some \<lparr>m_queue = q, m_version = 0\<rparr> \<and>
   (m_version cq = 0 \<and> cl_status B cs (QueryDeviceVersion (m_queue cq)) = CL_SUCCESS \<longrightarrow>
      get_version B cq cs =
        (Inr (device_version B (m_queue cq)),
         cq\<lparr>m_version := device_version B (m_queue cq)\<rparr>,
         cs @ [QueryDeviceVersion (m_queue cq)])) \<and>
   (m_version cq2 \<noteq> 0 \<longrightarrow> get_version B cq2 cs2 = (Inr (m_version cq2), cq2, cs2)) \<and>
   (get_version B cq3 cs3 = (Inr v, cq3', cs3') \<and> v \<noteq> 0 \<longrightarrow>
      m_version cq3' = v \<and> get_version B cq3' cs'' = (Inr v, cq3', cs''))"
  by (auto simp: construct_null_def construct_from_id_def lookup_def get_version_def Let_def
      split: if_splits)

theorem get_version_memoized_witness:
  "m_version \<lparr>m_queue = 3, m_version = 0\<rparr> = 0 \<and>
   cl_status (accepting_backend 120) [] (QueryDeviceVersion 3) = CL_SUCCESS \<and>
   get_version (accepting_backend 120) \<lparr>m_queue = 3, m_version = 0\<rparr> [] =
     (Inr 120, \<lparr>m_queue = 3, m_version = 120\<rparr>, [QueryDeviceVersion 3]) \<and>
   m_version \<lparr>m_queue = 3, m_version = 120\<rparr> \<noteq> 0 \<and>
   get_version (accepting_backend 120) \<lparr>m_queue = 3, m_version = 120\<rparr> [QueryDeviceVersion 3] =
     (Inr 120, \<lparr>m_queue = 3, m_version = 120\<rparr>, [QueryDeviceVersion 3]) \<and>
   get_version (accepting_backend 120) \<lparr>m_queue = 3, m_version = 120\<rparr>
       [QueryDeviceVersion 3, clEnqueueBarrier 3] =
     (Inr 120, \<lparr>m_queue = 3, m_version = 120\<rparr>, [QueryDeviceVersion 3, clEnqueueBarrier 3])"
  using get_version_memoized [where cq = "\<lparr>m_queue = 3, m_version = 0\<rparr>"
      and B = "accepting_backend 120" and cs = "[]"
      and ?cq2.0 = "\<lparr>m_queue = 3, m_version = 120\<rparr>" and ?cs2.0 = "[QueryDeviceVersion 3]"
      and ?cq3.0 = "\<lparr>m_queue = 3, m_version = 0\<rparr>" and ?cs3.0 = "[]" and v = 120
      and cq3' = "\<lparr>m_queue = 3, m_version = 120\<rparr>" and cs3' = "[QueryDeviceVersion 3]"
      and cs'' = "[QueryDeviceVersion 3, clEnqueueBarrier 3]"]
  by (simp add: get_version_def accepting_backend_def CL_SUCCESS_def)

subsection \<open>Self-assignment\<close>

text \<open>
  Claim C9. Copy-assigning a live command queue to itself leaves the whole machine as
  it was: the native id and the cached version of the object are unchanged, and the log
  gains no retain and no release (no call at all).
\<close>

theorem copy_assign_self:
  "lookup M a = Some c \<Longrightarrow> copy_assign a a M = Inr M"
  by (simp add: copy_assign_def)

theorem copy_assign_self_witness:
  "lookup demo_machine 0 = Some \<lparr>m_queue = 3, m_version = 120\<rparr> \<and>
   copy_assign 0 0 demo_machine = Inr demo_machine"
  using copy_assign_self [of demo_machine 0 "\<lparr>m_queue = 3, m_version = 120\<rparr>"]
  by (simp add: lookup_def demo_machine_def)

subsection \<open>Version-gated operations\<close>

lemma get_version_resolved:
  "version_resolves B cq cs \<Longrightarrow>
   get_version B cq cs = (Inr (resolved_version B cq), resolved B cq, version_query cq cs)"
  by (simp add: get_version_def version_resolves_def resolved_version_def resolved_def
      version_query_def Let_def)

text \<open>
  Claim C1, as stated, fails: the error of a version-gated method on a queue below
  the minimum is not a capability error of its own kind. The method throws
  \<^verbatim>\<open>opencl_error(CL_INVALID_DEVICE)\<close>, the very value that the same method
  throws when the backend rejects the call with the status
  \<^verbatim>\<open>CL_INVALID_DEVICE\<close>: \<open>enqueue_fill_buffer\<close> on a 1.1 queue and on a 1.2
  queue whose backend answers \<^verbatim>\<open>CL_INVALID_DEVICE\<close>, and likewise
  \<open>enqueue_svm_memcpy\<close> on a 1.2 and on a 2.0 queue.
\<close>

theorem capability_error_is_opencl_error:
  "fst (enqueue_fill_buffer (accepting_backend 110) demo_buffer 1 1 0 10 [] False
          \<lparr>m_queue = 3, m_version = 110\<rparr> []) = Inl (opencl_error CL_INVALID_DEVICE) \<and>
   fst (enqueue_fill_buffer (rejecting_backend 120 CL_INVALID_DEVICE) demo_buffer 1 1 0 10 []
          False \<lparr>m_queue = 3, m_version = 120\<rparr> []) = Inl (opencl_error CL_INVALID_DEVICE) \<and>
   fst (enqueue_svm_memcpy (accepting_backend 120) 20 10 4 [] False
          \<lparr>m_queue = 3, m_version = 120\<rparr> []) =
   fst (enqueue_svm_memcpy (rejecting_backend 200 CL_INVALID_DEVICE) 20 10 4 [] False
          \<lparr>m_queue = 3, m_version = 200\<rparr> [])"
  by (simp add: enqueue_fill_buffer_def enqueue_svm_memcpy_def get_version_def submit_def
      accepting_backend_def rejecting_backend_def demo_buffer_def CL_INVALID_DEVICE_def
      CL_SUCCESS_def size_t_modulus_def Let_def)

text \<open>
  Claim C1, amended. On a queue whose version resolves (it is cached, or the query of
  the device succeeds) to a value below the minimum of the method (110 for the
  rectangular buffer read, write and copy; 120 for buffer fill, image fill and
  migration; 200 for the five shared-virtual-memory methods), the method fails with
  \<open>opencl_error CL_INVALID_DEVICE\<close>, unless one of the assertions that stand before
  the version test fails first (the image fill and the shared-virtual-memory methods
  have none). Either way no enqueue call is made: of the calls the log records, the
  method makes none after a failed assertion and otherwise only the query of the
  device version, when the cached version is 0. (The information queries of the
  assertions are not in the log; the statement says nothing about them.)
\<close>

theorem version_gate_fails_before_enqueue:
  "(version_resolves B cq cs \<and> resolved_version B cq < 110 \<longrightarrow>
      enqueue_read_buffer_rect B buffer buffer_origin host_origin region p1 p2 p3 p4 host_ptr
          events event_p cq cs =
        (if m_queue cq \<noteq> 0 \<and> buf_context buffer = queue_context B (m_queue cq) \<and> host_ptr \<noteq> 0
         then (Inl (opencl_error CL_INVALID_DEVICE), resolved B cq, version_query cq cs)
         else (Inl assertion_failed, cq, cs)) \<and>
      enqueue_write_buffer_rect B buffer buffer_origin host_origin region p1 p2 p3 p4 host_ptr
          events event_p cq cs =
        (if m_queue cq \<noteq> 0 \<and> buf_context buffer = queue_context B (m_queue cq) \<and> host_ptr \<noteq> 0
         then (Inl (opencl_error CL_INVALID_DEVICE), resolved B cq, version_query cq cs)
         else (Inl assertion_failed, cq, cs)) \<and>
      enqueue_copy_buffer_rect B buffer dst_buffer buffer_origin host_origin region p1 p2 p3 p4
          events event_p cq cs =
        (if m_queue cq \<noteq> 0 \<and> buf_context buffer = queue_context B (m_queue cq) \<and>
            buf_context dst_buffer = queue_context B (m_queue cq)
         then (Inl (opencl_error CL_INVALID_DEVICE), resolved B cq, version_query cq cs)
         else (Inl assertion_failed, cq, cs))) \<and>
   (version_resolves B cq cs \<and> resolved_version B cq < 120 \<longrightarrow>
      enqueue_fill_buffer B buffer pattern pattern_size offset sz events event_p cq cs =
        (if m_queue cq \<noteq> 0 \<and> (offset + sz) mod size_t_modulus \<le> buf_size buffer \<and>
            buf_context buffer = queue_context B (m_queue cq)
         then (Inl (opencl_error CL_INVALID_DEVICE), resolved B cq, version_query cq cs)
         else (Inl assertion_failed, cq, cs)) \<and>
      enqueue_fill_image B img fill_color origin oregion events event_p cq cs =
        (Inl (opencl_error CL_INVALID_DEVICE), resolved B cq, version_query cq cs) \<and>
      enqueue_migrate_memory_objects B num_mem_objects mem_objects flags events event_p cq cs =
        (if m_queue cq \<noteq> 0
         then (Inl (opencl_error CL_INVALID_DEVICE), resolved B cq, version_query cq cs)
         else (Inl assertion_failed, cq, cs))) \<and>
   (version_resolves B cq cs \<and> resolved_version B cq < 200 \<longrightarrow>
      enqueue_svm_memcpy B dst_ptr src_ptr sz events event_p cq cs =
        (Inl (opencl_error CL_INVALID_DEVICE), resolved B cq, version_query cq cs) \<and>
      enqueue_svm_fill B svm_ptr pattern pattern_size sz events event_p cq cs =
        (Inl (opencl_error CL_INVALID_DEVICE), resolved B cq, version_query cq cs) \<and>
      enqueue_svm_free B svm_ptr events event_p cq cs =
        (Inl (opencl_error CL_INVALID_DEVICE), resolved B cq, version_query cq cs) \<and>
      enqueue_svm_map B svm_ptr sz flags events event_p cq cs =
        (Inl (opencl_error CL_INVALID_DEVICE), resolved B cq, version_query cq cs) \<and>
      enqueue_svm_unmap B svm_ptr events event_p cq cs =
        (Inl (opencl_error CL_INVALID_DEVICE), resolved B cq, version_query cq cs)) \<and>
   version_query cq cs = (if m_version cq = 0 then cs @ [QueryDeviceVersion (m_queue cq)] else cs)"
proof (intro conjI impI)
  assume v: "version_resolves B cq cs \<and> resolved_version B cq < 110"
  show "enqueue_read_buffer_rect B buffer buffer_origin host_origin region p1 p2 p3 p4 host_ptr
          events event_p cq cs =
        (if m_queue cq \<noteq> 0 \<and> buf_context buffer = queue_context B (m_queue cq) \<and> host_ptr \<noteq> 0
         then (Inl (opencl_error CL_INVALID_DEVICE), resolved B cq, version_query cq cs)
         else (Inl assertion_failed, cq, cs))"
    using v by (simp add: enqueue_read_buffer_rect_def get_version_resolved assert_fail_def)
  show "enqueue_write_buffer_rect B buffer buffer_origin host_origin region p1 p2 p3 p4 host_ptr
          events event_p cq cs =
        (if m_queue cq \<noteq> 0 \<and> buf_context buffer = queue_context B (m_queue cq) \<and> host_ptr \<noteq> 0
         then (Inl (opencl_error CL_INVALID_DEVICE), resolved B cq, version_query cq cs)
         else (Inl assertion_failed, cq, cs))"
    using v by (simp add: enqueue_write_buffer_rect_def get_version_resolved assert_fail_def)
  show "enqueue_copy_buffer_rect B buffer dst_buffer buffer_origin host_origin region p1 p2 p3 p4
          events event_p cq cs =
        (if m_queue cq \<noteq> 0 \<and> buf_context buffer = queue_context B (m_queue cq) \<and>
            buf_context dst_buffer = queue_context B (m_queue cq)
         then (Inl (opencl_error CL_INVALID_DEVICE), resolved B cq, version_query cq cs)
         else (Inl assertion_failed, cq, cs))"
    using v by (simp add: enqueue_copy_buffer_rect_def get_version_resolved assert_fail_def)
next
  assume v: "version_resolves B cq cs \<and> resolved_version B cq < 120"
  show "enqueue_fill_buffer B buffer pattern pattern_size offset sz events event_p cq cs =
        (if m_queue cq \<noteq> 0 \<and> (offset + sz) mod size_t_modulus \<le> buf_size buffer \<and>
            buf_context buffer = queue_context B (m_queue cq)
         then (Inl (opencl_error CL_INVALID_DEVICE), resolved B cq, version_query cq cs)
         else (Inl assertion_failed, cq, cs))"
    using v by (simp add: enqueue_fill_buffer_def get_version_resolved assert_fail_def)
  show "enqueue_fill_image B img fill_color origin oregion events event_p cq cs =
        (Inl (opencl_error CL_INVALID_DEVICE), resolved B cq, version_query cq cs)"
    using v by (simp add: enqueue_fill_image_def get_version_resolved)
  show "enqueue_migrate_memory_objects B num_mem_objects mem_objects flags events event_p cq cs =
        (if m_queue cq \<noteq> 0
         then (Inl (opencl_error CL_INVALID_DEVICE), resolved B cq, version_query cq cs)
         else (Inl assertion_failed, cq, cs))"
    using v by (simp add: enqueue_migrate_memory_objects_def get_version_resolved assert_fail_def)
next
  assume v: "version_resolves B cq cs \<and> resolved_version B cq < 200"
  show "enqueue_svm_memcpy B dst_ptr src_ptr sz events event_p cq cs =
        (Inl (opencl_error CL_INVALID_DEVICE), resolved B cq, version_query cq cs)"
    using v by (simp add: enqueue_svm_memcpy_def get_version_resolved)
  show "enqueue_svm_fill B svm_ptr pattern pattern_size sz events event_p cq cs =
        (Inl (opencl_error CL_INVALID_DEVICE), resolved B cq, version_query cq cs)"
    using v by (simp add: enqueue_svm_fill_def get_version_resolved)
  show "enqueue_svm_free B svm_ptr events event_p cq cs =
        (Inl (opencl_error CL_INVALID_DEVICE), resolved B cq, version_query cq cs)"
    using v by (simp add: enqueue_svm_free_def get_version_resolved)
  show "enqueue_svm_map B svm_ptr sz flags events event_p cq cs =
        (Inl (opencl_error CL_INVALID_DEVICE), resolved B cq, version_query cq cs)"
    using v by (simp add: enqueue_svm_map_def get_version_resolved)
  show "enqueue_svm_unmap B svm_ptr events event_p cq cs =
        (Inl (opencl_error CL_INVALID_DEVICE), resolved B cq, version_query cq cs)"
    using v by (simp add: enqueue_svm_unmap_def get_version_resolved)
next
  show "version_query cq cs = (if m_version cq = 0 then cs @ [QueryDeviceVersion (m_queue cq)] else cs)"
    by (simp add: version_query_def)
qed

theorem version_gate_fails_before_enqueue_witness:
  "version_resolves (accepting_backend 100) \<lparr>m_queue = 3, m_version = 0\<rparr> [] \<and>
   resolved_version (accepting_backend 100) \<lparr>m_queue = 3, m_version = 0\<rparr> < 110 \<and>
   enqueue_read_buffer_rect (accepting_backend 100) demo_buffer (0, 0, 0) (0, 0, 0) (2, 2, 1)
       0 0 0 0 1 [] False \<lparr>m_queue = 3, m_version = 0\<rparr> [] =
     (Inl (opencl_error CL_INVALID_DEVICE), \<lparr>m_queue = 3, m_version = 100\<rparr>,
      [QueryDeviceVersion 3]) \<and>
   enqueue_fill_buffer (accepting_backend 100) demo_buffer 1 1 0 10 [] False
       \<lparr>m_queue = 3, m_version = 0\<rparr> [] =
     (Inl (opencl_error CL_INVALID_DEVICE), \<lparr>m_queue = 3, m_version = 100\<rparr>,
      [QueryDeviceVersion 3]) \<and>
   enqueue_svm_memcpy (accepting_backend 100) 20 10 10 [] False
       \<lparr>m_queue = 3, m_version = 0\<rparr> [] =
     (Inl (opencl_error CL_INVALID_DEVICE), \<lparr>m_queue = 3, m_version = 100\<rparr>,
      [QueryDeviceVersion 3])"
proof -
  have v: "resolved_version (accepting_backend 100) \<lparr>m_queue = 3, m_version = 0\<rparr> = 100"
    "version_resolves (accepting_backend 100) \<lparr>m_queue = 3, m_version = 0\<rparr> []"
    by (simp_all add: resolved_version_def version_resolves_def accepting_backend_def
        CL_SUCCESS_def)
  have r: "resolved (accepting_backend 100) \<lparr>m_queue = 3, m_version = 0\<rparr> =
      \<lparr>m_queue = 3, m_version = 100\<rparr>"
    by (simp add: resolved_def v)
  have q: "version_query \<lparr>m_queue = 3, m_version = 0\<rparr> [] = [QueryDeviceVersion 3]"
    by (simp add: version_query_def)
  have c: "queue_context (accepting_backend 100) 3 = buf_context demo_buffer"
    "buf_size demo_buffer = 10"
    by (simp_all add: accepting_backend_def demo_buffer_def)
  note T = version_gate_fails_before_enqueue [where B = "accepting_backend 100"
      and cq = "\<lparr>m_queue = 3, m_version = 0\<rparr>" and cs = "[]" and buffer = demo_buffer
      and host_ptr = 1 and events = "[]" and event_p = False and offset = 0 and sz = 10
      and buffer_origin = "(0, 0, 0)" and host_origin = "(0, 0, 0)" and region = "(2, 2, 1)"
      and ?p1.0 = 0 and ?p2.0 = 0 and ?p3.0 = 0 and ?p4.0 = 0 and pattern = 1
      and pattern_size = 1 and dst_ptr = 20 and src_ptr = 10]
  show ?thesis
    using T by (simp add: v r q c size_t_modulus_def)
qed

text \<open>
  The other side of the version tests: at or above the minimum, with the assertions holding,
  each method submits its request.
\<close>

lemma version_gate_passes:
  "version_resolves B cq cs \<Longrightarrow> 110 \<le> resolved_version B cq \<Longrightarrow> m_queue cq \<noteq> 0 \<Longrightarrow>
   buf_context buffer = queue_context B (m_queue cq) \<Longrightarrow> host_ptr \<noteq> 0 \<Longrightarrow>
   enqueue_read_buffer_rect B buffer buffer_origin host_origin region p1 p2 p3 p4 host_ptr
       events event_p cq cs =
     submit B (ReadBufferRect (buf_mem buffer) (\<not> event_p) buffer_origin host_origin region
                 [p1, p2, p3, p4] host_ptr) events event_p (resolved B cq) (version_query cq cs)"
  "version_resolves B cq cs \<Longrightarrow> 110 \<le> resolved_version B cq \<Longrightarrow> m_queue cq \<noteq> 0 \<Longrightarrow>
   buf_context buffer = queue_context B (m_queue cq) \<Longrightarrow> host_ptr \<noteq> 0 \<Longrightarrow>
   enqueue_write_buffer_rect B buffer buffer_origin host_origin region p1 p2 p3 p4 host_ptr
       events event_p cq cs =
     submit B (WriteBufferRect (buf_mem buffer) (\<not> event_p) buffer_origin host_origin region
                 [p1, p2, p3, p4] host_ptr) events event_p (resolved B cq) (version_query cq cs)"
  "version_resolves B cq cs \<Longrightarrow> 110 \<le> resolved_version B cq \<Longrightarrow> m_queue cq \<noteq> 0 \<Longrightarrow>
   buf_context buffer = queue_context B (m_queue cq) \<Longrightarrow>
   buf_context dst_buffer = queue_context B (m_queue cq) \<Longrightarrow>
   enqueue_copy_buffer_rect B buffer dst_buffer buffer_origin host_origin region p1 p2 p3 p4
       events event_p cq cs =
     submit B (CopyBufferRect (buf_mem buffer) (buf_mem dst_buffer) buffer_origin host_origin
                 region [p1, p2, p3, p4]) events event_p (resolved B cq) (version_query cq cs)"
  "version_resolves B cq cs \<Longrightarrow> 120 \<le> resolved_version B cq \<Longrightarrow> m_queue cq \<noteq> 0 \<Longrightarrow>
   (offset + sz) mod size_t_modulus \<le> buf_size buffer \<Longrightarrow>
   buf_context buffer = queue_context B (m_queue cq) \<Longrightarrow>
   enqueue_fill_buffer B buffer pattern pattern_size offset sz events event_p cq cs =
     submit B (FillBuffer (buf_mem buffer) pattern pattern_size offset sz) events event_p
       (resolved B cq) (version_query cq cs)"
  "version_resolves B cq cs \<Longrightarrow> 120 \<le> resolved_version B cq \<Longrightarrow> m_queue cq \<noteq> 0 \<Longrightarrow>
   img_context img = queue_context B (m_queue cq) \<Longrightarrow>
   enqueue_fill_image B img fill_color origin oregion events event_p cq cs =
     submit B (FillImage (img_mem img) fill_color origin oregion) events event_p
       (resolved B cq) (version_query cq cs)"
  "version_resolves B cq cs \<Longrightarrow> 120 \<le> resolved_version B cq \<Longrightarrow> m_queue cq \<noteq> 0 \<Longrightarrow>
   enqueue_migrate_memory_objects B num_mem_objects mem_objects flags events event_p cq cs =
     submit B (MigrateMemObjects num_mem_objects mem_objects flags) events event_p
       (resolved B cq) (version_query cq cs)"
  "version_resolves B cq cs \<Longrightarrow> 200 \<le> resolved_version B cq \<Longrightarrow>
   enqueue_svm_memcpy B dst_ptr src_ptr sz events event_p cq cs =
     submit B (SVMMemcpy (\<not> event_p) dst_ptr src_ptr sz) events event_p
       (resolved B cq) (version_query cq cs)"
  "version_resolves B cq cs \<Longrightarrow> 200 \<le> resolved_version B cq \<Longrightarrow>
   enqueue_svm_fill B svm_ptr pattern pattern_size sz events event_p cq cs =
     submit B (SVMMemFill svm_ptr pattern pattern_size sz) events event_p
       (resolved B cq) (version_query cq cs)"
  "version_resolves B cq cs \<Longrightarrow> 200 \<le> resolved_version B cq \<Longrightarrow>
   enqueue_svm_free B svm_ptr events event_p cq cs =
     submit B (SVMFree [svm_ptr]) events event_p (resolved B cq) (version_query cq cs)"
  "version_resolves B cq cs \<Longrightarrow> 200 \<le> resolved_version B cq \<Longrightarrow>
   enqueue_svm_map B svm_ptr sz flags events event_p cq cs =
     submit B (SVMMap (\<not> event_p) flags svm_ptr sz) events event_p
       (resolved B cq) (version_query cq cs)"
  "version_resolves B cq cs \<Longrightarrow> 200 \<le> resolved_version B cq \<Longrightarrow>
   enqueue_svm_unmap B svm_ptr events event_p cq cs =
     submit B (SVMUnmap svm_ptr) events event_p (resolved B cq) (version_query cq cs)"
  by (simp_all add: enqueue_read_buffer_rect_def enqueue_write_buffer_rect_def
      enqueue_copy_buffer_rect_def enqueue_fill_buffer_def enqueue_fill_image_def
      enqueue_migrate_memory_objects_def enqueue_svm_memcpy_def enqueue_svm_fill_def
      enqueue_svm_free_def enqueue_svm_map_def enqueue_svm_unmap_def get_version_resolved
      resolved_def)

text \<open>
  A version that does not resolve: on a null queue that has no cached version, a
  backend that answers the query on the null queue with
  \<^verbatim>\<open>CL_INVALID_COMMAND_QUEUE\<close> makes the methods without an assertion before the
  version test throw that status from the query; the version test is not reached and nothing
  is cached.
\<close>

lemma null_queue_version_query_throws:
  "enqueue_svm_memcpy (null_checking_backend 120) 20 10 4 [] False
       \<lparr>m_queue = 0, m_version = 0\<rparr> [] =
     (Inl (opencl_error CL_INVALID_COMMAND_QUEUE), \<lparr>m_queue = 0, m_version = 0\<rparr>,
      [QueryDeviceVersion 0])"
  "enqueue_fill_image (null_checking_backend 110) demo_image 1 None None [] False
       \<lparr>m_queue = 0, m_version = 0\<rparr> [] =
     (Inl (opencl_error CL_INVALID_COMMAND_QUEUE), \<lparr>m_queue = 0, m_version = 0\<rparr>,
      [QueryDeviceVersion 0])"
  by (simp_all add: enqueue_svm_memcpy_def enqueue_fill_image_def get_version_def
      null_checking_backend_def accepting_backend_def CL_INVALID_COMMAND_QUEUE_def
      CL_SUCCESS_def Let_def)

subsection \<open>Backend status codes\<close>

lemma submit_raises_status:
  "cl_status B cs (clEnqueue (m_queue cq) c events event_p) \<noteq> CL_SUCCESS \<Longrightarrow>
   submit B c events event_p cq cs =
     (Inl (opencl_error (cl_status B cs (clEnqueue (m_queue cq) c events event_p))), cq,
      cs @ [clEnqueue (m_queue cq) c events event_p])"
  by (simp add: submit_def Let_def)

text \<open>
  Claim C4 fails on \<open>enqueue_barrier\<close>. With a backend that answers the status
  -5 (\<^verbatim>\<open>CL_OUT_OF_RESOURCES\<close>) to every call, \<^verbatim>\<open>enqueue_barrier()\<close> returns
  normally on a 1.1 queue (legacy \<^verbatim>\<open>clEnqueueBarrier\<close>) and on a 1.2 queue
  (\<^verbatim>\<open>clEnqueueBarrierWithWaitList\<close>), and so does the overload with a wait list:
  the call is logged and its status is dropped. The sibling \<open>enqueue_marker\<close> on the
  same backend throws \<open>opencl_error (- 5)\<close>.
\<close>

theorem enqueue_barrier_ignores_status:
  "cl_status (rejecting_backend 110 (- 5)) [] (clEnqueueBarrier 3) = - 5 \<and>
   enqueue_barrier (rejecting_backend 110 (- 5)) \<lparr>m_queue = 3, m_version = 110\<rparr> [] =
     (Inr (), \<lparr>m_queue = 3, m_version = 110\<rparr>, [clEnqueueBarrier 3]) \<and>
   enqueue_barrier (rejecting_backend 120 (- 5)) \<lparr>m_queue = 3, m_version = 120\<rparr> [] =
     (Inr (), \<lparr>m_queue = 3, m_version = 120\<rparr>, [clEnqueue 3 BarrierWithWaitList [] False]) \<and>
   enqueue_barrier_events (rejecting_backend 120 (- 5)) [4] False
       \<lparr>m_queue = 3, m_version = 120\<rparr> [] =
     (Inr None, \<lparr>m_queue = 3, m_version = 120\<rparr>, [clEnqueue 3 BarrierWithWaitList [4] False]) \<and>
   enqueue_marker (rejecting_backend 110 (- 5)) False \<lparr>m_queue = 3, m_version = 110\<rparr> [] =
     (Inl (opencl_error (- 5)), \<lparr>m_queue = 3, m_version = 110\<rparr>, [clEnqueueMarker 3 False])"
  by (simp add: enqueue_barrier_def enqueue_barrier_events_def enqueue_marker_def
      get_version_def rejecting_backend_def accepting_backend_def CL_SUCCESS_def Let_def)

subsection \<open>Precondition assertions of the buffer operations\<close>

lemma buffer_assertions:
  "fst (enqueue_read_buffer B buffer offset sz host_ptr events event_p cq cs) \<noteq> Inl assertion_failed
     \<Longrightarrow> m_queue cq \<noteq> 0 \<and> buf_context buffer = queue_context B (m_queue cq) \<and>
         sz \<le> buf_size buffer"
  "fst (enqueue_write_buffer B buffer offset sz host_ptr events event_p cq cs) \<noteq> Inl assertion_failed
     \<Longrightarrow> m_queue cq \<noteq> 0 \<and> buf_context buffer = queue_context B (m_queue cq) \<and>
         sz \<le> buf_size buffer"
  "fst (enqueue_copy_buffer B src_buffer dst_buffer src_offset dst_offset sz events event_p cq cs)
       \<noteq> Inl assertion_failed
     \<Longrightarrow> m_queue cq \<noteq> 0 \<and> buf_context src_buffer = queue_context B (m_queue cq) \<and>
         buf_context dst_buffer = queue_context B (m_queue cq) \<and>
         (src_offset + sz) mod size_t_modulus \<le> buf_size src_buffer \<and>
         (dst_offset + sz) mod size_t_modulus \<le> buf_size dst_buffer"
  by (auto simp: enqueue_read_buffer_def enqueue_write_buffer_def enqueue_copy_buffer_def
      assert_fail_def split: if_splits)

text \<open>
  Claim C5 fails on the range check of read and write. On a buffer of 10 bytes, a
  read (and a write) of 5 bytes at offset 8 passes every assertion and is submitted,
  because the assertion is \<^verbatim>\<open>size <= buffer.size()\<close> and does not involve the
  offset. \<open>enqueue_copy_buffer\<close> with the same source range fails its assertion
  \<^verbatim>\<open>src_offset + size <= src_buffer.size()\<close>.
\<close>

theorem read_write_buffer_range_unchecked:
  "buf_size demo_buffer = 10 \<and>
   enqueue_read_buffer (accepting_backend 120) demo_buffer 8 5 1 [] False
       \<lparr>m_queue = 3, m_version = 120\<rparr> [] =
     (Inr None, \<lparr>m_queue = 3, m_version = 120\<rparr>,
      [clEnqueue 3 (ReadBuffer 5 True 8 5 1) [] False]) \<and>
   enqueue_write_buffer (accepting_backend 120) demo_buffer 8 5 1 [] False
       \<lparr>m_queue = 3, m_version = 120\<rparr> [] =
     (Inr None, \<lparr>m_queue = 3, m_version = 120\<rparr>,
      [clEnqueue 3 (WriteBuffer 5 True 8 5 1) [] False]) \<and>
   enqueue_copy_buffer (accepting_backend 120) demo_buffer demo_buffer 8 0 5 [] False
       \<lparr>m_queue = 3, m_version = 120\<rparr> [] =
     (Inl assertion_failed, \<lparr>m_queue = 3, m_version = 120\<rparr>, [])"
  by (simp add: enqueue_read_buffer_def enqueue_write_buffer_def enqueue_copy_buffer_def
      submit_def assert_fail_def accepting_backend_def demo_buffer_def CL_SUCCESS_def
      size_t_modulus_def Let_def)

subsection \<open>Asynchronous variants\<close>

lemma m_queue_resolved: "m_queue (resolved B cq) = m_queue cq"
  by (simp add: resolved_def)

lemma return_event_submit:
  "return_event (submit B c events True cq cs) =
     (if cl_status B cs (clEnqueue (m_queue cq) c events True) \<noteq> CL_SUCCESS
      then (Inl (opencl_error (cl_status B cs (clEnqueue (m_queue cq) c events True))), cq,
            cs @ [clEnqueue (m_queue cq) c events True])
      else (Inr (cl_event_out B cs (clEnqueue (m_queue cq) c events True)), cq,
            cs @ [clEnqueue (m_queue cq) c events True]))"
  by (simp add: return_event_def submit_def Let_def)

text \<open>
  Claim C7. Each \<^verbatim>\<open>_async\<close> method (read, write, copy and fill of a buffer, the
  N-dimensional and the one-dimensional kernel dispatch, the shared-virtual-memory
  copy) is its synchronous method called with an event slot, returning the event
  stored there. When the assertions hold (and, for the two version-gated methods, the
  version resolves and suffices), the synchronous method with or without a slot submits one and the
  same request, in which only the blocking flag, where the entry point has one,
  depends on the slot: it is set if and only if no slot is passed. A submission logs
  the call, throws the backend's status if that is not \<^verbatim>\<open>CL_SUCCESS\<close> and
  otherwise yields the event the backend produced; so the asynchronous method returns
  that event.
\<close>

theorem async_variant_is_sync_with_event_slot:
  "enqueue_read_buffer_async B buffer offset sz host_ptr events cq cs =
     return_event (enqueue_read_buffer B buffer offset sz host_ptr events True cq cs) \<and>
   enqueue_write_buffer_async B buffer offset sz host_ptr events cq cs =
     return_event (enqueue_write_buffer B buffer offset sz host_ptr events True cq cs) \<and>
   enqueue_copy_buffer_async B buffer dst_buffer offset dst_offset sz events cq cs =
     return_event (enqueue_copy_buffer B buffer dst_buffer offset dst_offset sz events True cq cs) \<and>
   enqueue_fill_buffer_async B buffer pattern pattern_size offset sz events cq cs =
     return_event (enqueue_fill_buffer B buffer pattern pattern_size offset sz events True cq cs) \<and>
   enqueue_nd_range_kernel_async B krn work_dim gwo gws lws events cq cs =
     return_event (enqueue_nd_range_kernel B krn work_dim gwo gws lws events True cq cs) \<and>
   enqueue_1d_range_kernel_async B krn gwo1 gws1 lws1 events cq cs =
     return_event (enqueue_1d_range_kernel B krn gwo1 gws1 lws1 events True cq cs) \<and>
   enqueue_svm_memcpy_async B dst_ptr src_ptr sz events cq cs =
     return_event (enqueue_svm_memcpy B dst_ptr src_ptr sz events True cq cs) \<and>
   (m_queue cq \<noteq> 0 \<and> sz \<le> buf_size buffer \<and>
    buf_context buffer = queue_context B (m_queue cq) \<and> host_ptr \<noteq> 0 \<longrightarrow>
      enqueue_read_buffer B buffer offset sz host_ptr events event_p cq cs =
        submit B (ReadBuffer (buf_mem buffer) (\<not> event_p) offset sz host_ptr) events event_p
          cq cs \<and>
      enqueue_write_buffer B buffer offset sz host_ptr events event_p cq cs =
        submit B (WriteBuffer (buf_mem buffer) (\<not> event_p) offset sz host_ptr) events event_p
          cq cs) \<and>
   (m_queue cq \<noteq> 0 \<and> (offset + sz) mod size_t_modulus \<le> buf_size buffer \<and>
    (dst_offset + sz) mod size_t_modulus \<le> buf_size dst_buffer \<and>
    buf_context buffer = queue_context B (m_queue cq) \<and>
    buf_context dst_buffer = queue_context B (m_queue cq) \<longrightarrow>
      enqueue_copy_buffer B buffer dst_buffer offset dst_offset sz events event_p cq cs =
        submit B (CopyBuffer (buf_mem buffer) (buf_mem dst_buffer) offset dst_offset sz)
          events event_p cq cs) \<and>
   (m_queue cq \<noteq> 0 \<and> (offset + sz) mod size_t_modulus \<le> buf_size buffer \<and>
    buf_context buffer = queue_context B (m_queue cq) \<and> version_resolves B cq cs \<and>
    120 \<le> resolved_version B cq \<longrightarrow>
      enqueue_fill_buffer B buffer pattern pattern_size offset sz events event_p cq cs =
        submit B (FillBuffer (buf_mem buffer) pattern pattern_size offset sz) events event_p
          (resolved B cq) (version_query cq cs)) \<and>
   (m_queue cq \<noteq> 0 \<and> work_dim > 0 \<and> krn_context krn = queue_context B (m_queue cq) \<longrightarrow>
      enqueue_nd_range_kernel B krn work_dim gwo gws lws events event_p cq cs =
        submit B (NDRangeKernel (krn_id krn) (work_dim mod 2 ^ 32) gwo gws lws) events event_p
          cq cs \<and>
      enqueue_1d_range_kernel B krn gwo1 gws1 lws1 events event_p cq cs =
        submit B (NDRangeKernel (krn_id krn) 1 (Some [gwo1]) (Some [gws1])
                    (if lws1 \<noteq> 0 then Some [lws1] else None)) events event_p cq cs) \<and>
   (version_resolves B cq cs \<and> 200 \<le> resolved_version B cq \<longrightarrow>
      enqueue_svm_memcpy B dst_ptr src_ptr sz events event_p cq cs =
        submit B (SVMMemcpy (\<not> event_p) dst_ptr src_ptr sz) events event_p
          (resolved B cq) (version_query cq cs)) \<and>
   submit B c events event_p cq cs =
     (if cl_status B cs (clEnqueue (m_queue cq) c events event_p) \<noteq> CL_SUCCESS
      then (Inl (opencl_error (cl_status B cs (clEnqueue (m_queue cq) c events event_p))), cq,
            cs @ [clEnqueue (m_queue cq) c events event_p])
      else (Inr (if event_p then Some (cl_event_out B cs (clEnqueue (m_queue cq) c events event_p))
                 else None), cq,
            cs @ [clEnqueue (m_queue cq) c events event_p])) \<and>
   return_event (submit B c events True cq cs) =
     (if cl_status B cs (clEnqueue (m_queue cq) c events True) \<noteq> CL_SUCCESS
      then (Inl (opencl_error (cl_status B cs (clEnqueue (m_queue cq) c events True))), cq,
            cs @ [clEnqueue (m_queue cq) c events True])
      else (Inr (cl_event_out B cs (clEnqueue (m_queue cq) c events True)), cq,
            cs @ [clEnqueue (m_queue cq) c events True]))"
proof (intro conjI impI)
  show "return_event (submit B c events True cq cs) =
     (if cl_status B cs (clEnqueue (m_queue cq) c events True) \<noteq> CL_SUCCESS
      then (Inl (opencl_error (cl_status B cs (clEnqueue (m_queue cq) c events True))), cq,
            cs @ [clEnqueue (m_queue cq) c events True])
      else (Inr (cl_event_out B cs (clEnqueue (m_queue cq) c events True)), cq,
            cs @ [clEnqueue (m_queue cq) c events True]))"
    by (rule return_event_submit)
  show "submit B c events event_p cq cs =
     (if cl_status B cs (clEnqueue (m_queue cq) c events event_p) \<noteq> CL_SUCCESS
      then (Inl (opencl_error (cl_status B cs (clEnqueue (m_queue cq) c events event_p))), cq,
            cs @ [clEnqueue (m_queue cq) c events event_p])
      else (Inr (if event_p then Some (cl_event_out B cs (clEnqueue (m_queue cq) c events event_p))
                 else None), cq,
            cs @ [clEnqueue (m_queue cq) c events event_p]))"
    by (simp only: submit_def Let_def)
qed (simp_all only: enqueue_read_buffer_async_def enqueue_write_buffer_async_def
    enqueue_copy_buffer_async_def enqueue_fill_buffer_async_def
    enqueue_nd_range_kernel_async_def enqueue_1d_range_kernel_async_def
    enqueue_svm_memcpy_async_def,
    simp_all add: enqueue_read_buffer_def enqueue_write_buffer_def enqueue_copy_buffer_def
    enqueue_fill_buffer_def enqueue_nd_range_kernel_def enqueue_1d_range_kernel_def
    enqueue_svm_memcpy_def get_version_resolved)

theorem async_variant_is_sync_with_event_slot_witness:
  "m_queue \<lparr>m_queue = 3, m_version = 200\<rparr> \<noteq> 0 \<and> (5::nat) \<le> buf_size demo_buffer \<and>
   buf_context demo_buffer = queue_context (accepting_backend 200) 3 \<and>
   krn_context demo_kernel = queue_context (accepting_backend 200) 3 \<and>
   version_resolves (accepting_backend 200) \<lparr>m_queue = 3, m_version = 200\<rparr> [] \<and>
   200 \<le> resolved_version (accepting_backend 200) \<lparr>m_queue = 3, m_version = 200\<rparr> \<and>
   enqueue_read_buffer (accepting_backend 200) demo_buffer 0 5 1 [] False
       \<lparr>m_queue = 3, m_version = 200\<rparr> [] =
     (Inr None, \<lparr>m_queue = 3, m_version = 200\<rparr>,
      [clEnqueue 3 (ReadBuffer 5 True 0 5 1) [] False]) \<and>
   enqueue_read_buffer_async (accepting_backend 200) demo_buffer 0 5 1 []
       \<lparr>m_queue = 3, m_version = 200\<rparr> [] =
     (Inr 1, \<lparr>m_queue = 3, m_version = 200\<rparr>,
      [clEnqueue 3 (ReadBuffer 5 False 0 5 1) [] True]) \<and>
   enqueue_svm_memcpy (accepting_backend 200) 20 10 5 [] False
       \<lparr>m_queue = 3, m_version = 200\<rparr> [] =
     (Inr None, \<lparr>m_queue = 3, m_version = 200\<rparr>,
      [clEnqueue 3 (SVMMemcpy True 20 10 5) [] False]) \<and>
   enqueue_svm_memcpy_async (accepting_backend 200) 20 10 5 []
       \<lparr>m_queue = 3, m_version = 200\<rparr> [] =
     (Inr 1, \<lparr>m_queue = 3, m_version = 200\<rparr>,
      [clEnqueue 3 (SVMMemcpy False 20 10 5) [] True])"
proof -
  have e: "resolved_version (accepting_backend 200) \<lparr>m_queue = 3, m_version = 200\<rparr> = 200"
    "resolved (accepting_backend 200) \<lparr>m_queue = 3, m_version = 200\<rparr> =
       \<lparr>m_queue = 3, m_version = 200\<rparr>"
    "version_query \<lparr>m_queue = 3, m_version = 200\<rparr> [] = []"
    by (simp_all add: resolved_version_def resolved_def version_query_def)
  have d: "buf_size demo_buffer = 10" "buf_context demo_buffer = 7" "buf_mem demo_buffer = 5"
    "krn_context demo_kernel = 7" "krn_id demo_kernel = 9"
    "queue_context (accepting_backend 200) = (\<lambda>q. 7)"
    "cl_status (accepting_backend 200) = (\<lambda>cs c. 0)"
    "cl_event_out (accepting_backend 200) = (\<lambda>cs c. Suc (length cs))"
    by (simp_all add: demo_buffer_def demo_kernel_def accepting_backend_def)
  have h1: "m_queue \<lparr>m_queue = 3, m_version = 200\<rparr> \<noteq> 0 \<and> (5::nat) \<le> buf_size demo_buffer \<and>
      buf_context demo_buffer =
        queue_context (accepting_backend 200) (m_queue \<lparr>m_queue = 3, m_version = 200\<rparr>) \<and>
      (1::nat) \<noteq> 0"
    by (simp add: d)
  have h2: "version_resolves (accepting_backend 200) \<lparr>m_queue = 3, m_version = 200\<rparr> [] \<and>
      200 \<le> resolved_version (accepting_backend 200) \<lparr>m_queue = 3, m_version = 200\<rparr>"
    by (simp add: e version_resolves_def)
  have s: "submit (accepting_backend 200) c [] ev \<lparr>m_queue = 3, m_version = 200\<rparr> [] =
      (Inr (if ev then Some 1 else None), \<lparr>m_queue = 3, m_version = 200\<rparr>,
       [clEnqueue 3 c [] ev])" for c ev
    by (simp add: submit_def d CL_SUCCESS_def Let_def)
  note T = async_variant_is_sync_with_event_slot [where B = "accepting_backend 200"
      and buffer = demo_buffer and offset = 0
      and sz = 5 and host_ptr = 1 and events = "[]"
      and cq = "\<lparr>m_queue = 3, m_version = 200\<rparr>" and cs = "[]" and dst_ptr = 20
      and src_ptr = 10 and event_p = False]
  note U = async_variant_is_sync_with_event_slot [where B = "accepting_backend 200"
      and buffer = demo_buffer and offset = 0
      and sz = 5 and host_ptr = 1 and events = "[]"
      and cq = "\<lparr>m_queue = 3, m_version = 200\<rparr>" and cs = "[]" and dst_ptr = 20
      and src_ptr = 10 and event_p = True]
  note A = T [THEN conjunct1]
  note A7 = T [THEN conjunct2, THEN conjunct2, THEN conjunct2, THEN conjunct2, THEN conjunct2,
      THEN conjunct2, THEN conjunct1]
  note R = T [THEN conjunct2, THEN conjunct2, THEN conjunct2, THEN conjunct2, THEN conjunct2,
      THEN conjunct2, THEN conjunct2, THEN conjunct1, THEN mp, OF h1, THEN conjunct1]
  note R' = U [THEN conjunct2, THEN conjunct2, THEN conjunct2, THEN conjunct2, THEN conjunct2,
      THEN conjunct2, THEN conjunct2, THEN conjunct1, THEN mp, OF h1, THEN conjunct1]
  note S = T [THEN conjunct2, THEN conjunct2, THEN conjunct2, THEN conjunct2, THEN conjunct2,
      THEN conjunct2, THEN conjunct2, THEN conjunct2, THEN conjunct2, THEN conjunct2,
      THEN conjunct2, THEN conjunct1, THEN mp, OF h2]
  note S' = U [THEN conjunct2, THEN conjunct2, THEN conjunct2, THEN conjunct2, THEN conjunct2,
      THEN conjunct2, THEN conjunct2, THEN conjunct2, THEN conjunct2, THEN conjunct2,
      THEN conjunct2, THEN conjunct1, THEN mp, OF h2]
  have w1: "enqueue_read_buffer (accepting_backend 200) demo_buffer 0 5 1 [] False
       \<lparr>m_queue = 3, m_version = 200\<rparr> [] =
     (Inr None, \<lparr>m_queue = 3, m_version = 200\<rparr>,
      [clEnqueue 3 (ReadBuffer 5 True 0 5 1) [] False])"
    using R by (simp add: s d)
  have w2: "enqueue_read_buffer_async (accepting_backend 200) demo_buffer 0 5 1 []
       \<lparr>m_queue = 3, m_version = 200\<rparr> [] =
     (Inr 1, \<lparr>m_queue = 3, m_version = 200\<rparr>,
      [clEnqueue 3 (ReadBuffer 5 False 0 5 1) [] True])"
    using A R' by (simp add: s d return_event_def)
  have w3: "enqueue_svm_memcpy (accepting_backend 200) 20 10 5 [] False
       \<lparr>m_queue = 3, m_version = 200\<rparr> [] =
     (Inr None, \<lparr>m_queue = 3, m_version = 200\<rparr>,
      [clEnqueue 3 (SVMMemcpy True 20 10 5) [] False])"
    using S by (simp add: s e)
  have w4: "enqueue_svm_memcpy_async (accepting_backend 200) 20 10 5 []
       \<lparr>m_queue = 3, m_version = 200\<rparr> [] =
     (Inr 1, \<lparr>m_queue = 3, m_version = 200\<rparr>,
      [clEnqueue 3 (SVMMemcpy False 20 10 5) [] True])"
    using A7 S' by (simp add: s e return_event_def)
  from h1 h2 w1 w2 w3 w4 show ?thesis by (simp add: d)
qed

subsection \<open>Walking a mapped image\<close>

lemma upt_0_Suc_shift: "[0..<Suc n] = 0 # map Suc [0..<n]"
  by (simp add: upt_rec [of 0 "Suc n"] map_Suc_upt del: upt_Suc)

lemma fold_upt_Suc:
  "fold g [0..<Suc n] mem = fold (\<lambda>i. g (Suc i)) [0..<n] (g 0 mem)"
  by (simp only: upt_0_Suc_shift fold_simps fold_map o_def)

lemma walk_w_fold:
  "walk_w f es r0 h d p w mem = fold (\<lambda>i. f (p + i * es) (w + i) h d) [0..<r0 - w] mem"
proof (induction f es r0 h d p w mem rule: walk_w.induct)
  case (1 f es r0 h d p w mem)
  show ?case
  proof (cases "w < r0")
    case True
    then have n: "r0 - w = Suc (r0 - (w + 1))" by simp
    have "walk_w f es r0 h d p w mem =
        walk_w f es r0 h d (p + es) (w + 1) (f p w h d mem)"
      using True by (subst walk_w.simps) simp
    also have "\<dots> = fold (\<lambda>i. f (p + es + i * es) (w + 1 + i) h d) [0..<r0 - (w + 1)]
        (f p w h d mem)"
      using "1.IH" [OF True] .
    also have "\<dots> = fold (\<lambda>i. f (p + i * es) (w + i) h d) [0..<r0 - w] mem"
      by (simp only: n fold_upt_Suc) (simp add: algebra_simps)
    finally show ?thesis .
  next
    case False
    then show ?thesis by (subst walk_w.simps) simp
  qed
qed

lemma walk_h_fold:
  "walk_h f es rp o0 r0 r1 d p h mem =
     fold (\<lambda>j. walk_w f es r0 (h + j) d (p + j * rp) o0) [0..<r1 - h] mem"
proof (induction f es rp o0 r0 r1 d p h mem rule: walk_h.induct)
  case (1 f es rp o0 r0 r1 d p h mem)
  show ?case
  proof (cases "h < r1")
    case True
    then have n: "r1 - h = Suc (r1 - (h + 1))" by simp
    have "walk_h f es rp o0 r0 r1 d p h mem =
        walk_h f es rp o0 r0 r1 d (p + rp) (h + 1) (walk_w f es r0 h d p o0 mem)"
      using True by (subst walk_h.simps) simp
    also have "\<dots> = fold (\<lambda>j. walk_w f es r0 (h + 1 + j) d (p + rp + j * rp) o0)
        [0..<r1 - (h + 1)] (walk_w f es r0 h d p o0 mem)"
      using "1.IH" [OF True] .
    also have "\<dots> = fold (\<lambda>j. walk_w f es r0 (h + j) d (p + j * rp) o0) [0..<r1 - h] mem"
      by (simp only: n fold_upt_Suc) (simp add: algebra_simps)
    finally show ?thesis .
  next
    case False
    then show ?thesis by (subst walk_h.simps) simp
  qed
qed

lemma walk_d_fold:
  "walk_d f es rp sp o0 o1 r0 r1 r2 p d mem =
     fold (\<lambda>k. walk_h f es rp o0 r0 r1 (d + k) (p + k * sp) o1) [0..<r2 - d] mem"
proof (induction f es rp sp o0 o1 r0 r1 r2 p d mem rule: walk_d.induct)
  case (1 f es rp sp o0 o1 r0 r1 r2 p d mem)
  show ?case
  proof (cases "d < r2")
    case True
    then have n: "r2 - d = Suc (r2 - (d + 1))" by simp
    have "walk_d f es rp sp o0 o1 r0 r1 r2 p d mem =
        walk_d f es rp sp o0 o1 r0 r1 r2 (p + sp) (d + 1)
          (walk_h f es rp o0 r0 r1 d p o1 mem)"
      using True by (subst walk_d.simps) simp
    also have "\<dots> = fold (\<lambda>k. walk_h f es rp o0 r0 r1 (d + 1 + k) (p + sp + k * sp) o1)
        [0..<r2 - (d + 1)] (walk_h f es rp o0 r0 r1 d p o1 mem)"
      using "1.IH" [OF True] .
    also have "\<dots> = fold (\<lambda>k. walk_h f es rp o0 r0 r1 (d + k) (p + k * sp) o1) [0..<r2 - d] mem"
      by (simp only: n fold_upt_Suc) (simp add: algebra_simps)
    finally show ?thesis .
  next
    case False
    then show ?thesis by (subst walk_d.simps) simp
  qed
qed



lemma fold_concat_map:
  "fold g (concat (map e xs)) mem = fold (\<lambda>x. fold g (e x)) xs mem"
  by (induction xs arbitrary: mem) simp_all

lemma fold_record_visit:
  "fold (\<lambda>(p, w, h, d). record_visit p w h d) xs acc = acc @ xs"
  by (induction xs arbitrary: acc) (auto simp: record_visit_def)

lemma walk_w_fold_ext:
  "walk_w f es r0 h d p w = fold (\<lambda>i. f (p + i * es) (w + i) h d) [0..<r0 - w]"
  by (rule ext) (rule walk_w_fold)

lemma walk_h_fold_ext:
  "walk_h f es rp o0 r0 r1 d p h =
     fold (\<lambda>j. walk_w f es r0 (h + j) d (p + j * rp) o0) [0..<r1 - h]"
  by (rule ext) (rule walk_h_fold)

lemma fold_concat_map_ext:
  "fold g (concat (map e xs)) = fold (\<lambda>x. fold g (e x)) xs"
  by (rule ext) (rule fold_concat_map)

lemma walk_image_fold:
  "walk_image f base (o0, o1, o2) (r0, r1, r2) rp sp es mem =
     fold (\<lambda>(p, w, h, d). f p w h d)
       (region_elements base (o0, o1, o2) (r0 - o0, r1 - o1, r2 - o2) rp sp es) mem"
  by (simp only: walk_image_def region_elements_def prod.case walk_d_fold walk_h_fold_ext
      walk_w_fold_ext fold_concat_map_ext fold_map o_def)

lemma walk_image_visits:
  "walk_image record_visit base (o0, o1, o2) (r0, r1, r2) rp sp es [] =
     region_elements base (o0, o1, o2) (r0 - o0, r1 - o1, r2 - o2) rp sp es"
  by (simp only: walk_image_fold fold_record_visit append_Nil)

lemma walk_image_from_zero_origin:
  "walk_image record_visit base (0, 0, 0) region3 rp sp es [] =
     region_elements base (0, 0, 0) region3 rp sp es"
proof (cases region3)
  case (fields r0 r1 r2)
  then show ?thesis using walk_image_visits [of base 0 0 0 r0 r1 r2 rp sp es] by simp
qed


lemma length_region_elements:
  "length (region_elements base og (r0, r1, r2) rp sp es) = r0 * r1 * r2"
  by (cases og) (simp add: region_elements_def length_concat o_def sum_list_triv)

text \<open>
  Claim C2 fails when the origin is not zero. The loops run each coordinate from
  \<^verbatim>\<open>origin3[i]\<close> while it is below \<^verbatim>\<open>region3[i]\<close>, not below
  \<^verbatim>\<open>origin3[i] + region3[i]\<close>. For the region of extent (2, 1, 1) at origin
  (1, 0, 0), mapped at address 1000 with 4-byte elements, the walk calls the function
  on one element, (1000; 1, 0, 0); the region has two, the second at address 1004 with
  coordinates (2, 0, 0). The same happens through \<open>enqueue_walk_image\<close>, which
  maps exactly that origin and region. Lemma \<open>walk_image_visits\<close> gives what the
  walk visits in general, and \<open>walk_image_from_zero_origin\<close> shows that the claim
  holds for the origin (0, 0, 0), with the pitches the map call reported.
\<close>

theorem walk_image_stops_at_region_not_origin_plus_region:
  "walk_image record_visit 1000 (1, 0, 0) (2, 1, 1) 64 256 4 [] = [(1000, 1, 0, 0)] \<and>
   region_elements 1000 (1, 0, 0) (2, 1, 1) 64 256 4 = [(1000, 1, 0, 0), (1004, 2, 0, 0)] \<and>
   enqueue_walk_image (accepting_backend 120) demo_image record_visit CL_MAP_READ
       (Some (1, 0, 0)) (Some (2, 1, 1)) [] False \<lparr>m_queue = 3, m_version = 120\<rparr> []
       \<lparr>memory = [], callbacks = []\<rparr> =
     (Inr None, \<lparr>m_queue = 3, m_version = 120\<rparr>,
      [clEnqueue 3 (MapImage 6 True CL_MAP_READ (1, 0, 0) (2, 1, 1)) [] False,
       clEnqueue 3 (UnmapMemObject 6 1000) [] False],
      \<lparr>memory = [(1000, 1, 0, 0)], callbacks = []\<rparr>)"
proof -
  have u: "[0..<2] = [0, Suc 0]" "[0..<Suc 0] = [0]"
    by (simp_all add: upt_conv_Cons)
  have a: "region_elements 1000 (1, 0, 0) (2, 1, 1) 64 256 4 = [(1000, 1, 0, 0), (1004, 2, 0, 0)]"
    by (simp add: region_elements_def u)
  have b: "walk_image record_visit 1000 (1, 0, 0) (2, 1, 1) 64 256 4 [] =
      region_elements 1000 (1, 0, 0) (2 - 1, 1 - 0, 1 - 0) 64 256 4"
    by (rule walk_image_visits)
  have c: "region_elements 1000 (1, 0, 0) (2 - 1, 1 - 0, 1 - 0) 64 256 4 = [(1000, 1, 0, 0)]"
    by (simp add: region_elements_def u)
  from b c have w: "walk_image record_visit 1000 (Suc 0, 0, 0) (2, Suc 0, Suc 0) 64 256 4 [] =
      [(1000, 1, 0, 0)]"
    by simp
  have d: "img_context demo_image = 7" "img_mem demo_image = 6"
    "img_element_size demo_image = 4"
    by (simp_all add: demo_image_def)
  have k: "queue_context (accepting_backend 120) = (\<lambda>q. 7)"
    "cl_status (accepting_backend 120) = (\<lambda>cs c. 0)"
    "cl_map_out (accepting_backend 120) = (\<lambda>cs c. (1000, 64, 256))"
    by (simp_all add: accepting_backend_def)
  have e: "enqueue_walk_image (accepting_backend 120) demo_image record_visit CL_MAP_READ
       (Some (1, 0, 0)) (Some (2, 1, 1)) [] False \<lparr>m_queue = 3, m_version = 120\<rparr> []
       \<lparr>memory = [], callbacks = []\<rparr> =
     (Inr None, \<lparr>m_queue = 3, m_version = 120\<rparr>,
      [clEnqueue 3 (MapImage 6 True CL_MAP_READ (1, 0, 0) (2, 1, 1)) [] False,
       clEnqueue 3 (UnmapMemObject 6 1000) [] False],
      \<lparr>memory = [(1000, 1, 0, 0)], callbacks = []\<rparr>)"
    by (simp add: enqueue_walk_image_def enqueue_map_image_def enqueue_unmap_buffer_def
        enqueue_unmap_mem_object_def submit_def d k CL_SUCCESS_def Let_def w)
  from a b c e show ?thesis by simp
qed

subsection \<open>Default origin and region\<close>

lemma unmap_buffer_log:
  "\<exists>r rest. enqueue_unmap_buffer B mem ctx p ws ev cq cs = (r, cq, cs @ rest)"
  by (simp add: enqueue_unmap_buffer_def enqueue_unmap_mem_object_def submit_def
      assert_fail_def Let_def)

lemma map_image_result:
  "m_queue cq \<noteq> 0 \<Longrightarrow> img_context img = queue_context B (m_queue cq) \<Longrightarrow>
   enqueue_map_image B img flags og rg events ev cq cs =
     (if cl_status B cs (clEnqueue (m_queue cq) (MapImage (img_mem img) (\<not> ev) flags og rg)
            events ev) \<noteq> CL_SUCCESS
      then (Inl (opencl_error (cl_status B cs
              (clEnqueue (m_queue cq) (MapImage (img_mem img) (\<not> ev) flags og rg) events ev))),
            cq, cs @ [clEnqueue (m_queue cq) (MapImage (img_mem img) (\<not> ev) flags og rg)
              events ev])
      else (Inr (cl_map_out B cs
                   (clEnqueue (m_queue cq) (MapImage (img_mem img) (\<not> ev) flags og rg)
                      events ev),
                 if ev then Some (cl_event_out B cs
                   (clEnqueue (m_queue cq) (MapImage (img_mem img) (\<not> ev) flags og rg)
                      events ev)) else None),
            cq, cs @ [clEnqueue (m_queue cq) (MapImage (img_mem img) (\<not> ev) flags og rg)
              events ev]))"
  by (simp add: enqueue_map_image_def Let_def)

lemma walk_image_log_sync:
  assumes q: "m_queue cq \<noteq> 0" and c: "img_context img = queue_context B (m_queue cq)"
  shows "\<exists>r rest H'. enqueue_walk_image B img f flags origin region events False cq cs H =
     (r, cq,
      cs @ [clEnqueue (m_queue cq)
           (MapImage (img_mem img) True flags
              (case origin of None \<Rightarrow> (0, 0, 0) | Some og \<Rightarrow> og)
              (case region of
                 None \<Rightarrow> (img_width img, max 1 (img_height img), max 1 (img_depth img))
               | Some rg \<Rightarrow> rg))
           events False] @ rest,
      H')"
proof -
  define call where "call = clEnqueue (m_queue cq) (MapImage (img_mem img) True flags
      (case origin of None \<Rightarrow> (0, 0, 0) | Some og \<Rightarrow> og)
      (case region of
         None \<Rightarrow> (img_width img, max 1 (img_height img), max 1 (img_depth img))
       | Some rg \<Rightarrow> rg)) events False"
  show ?thesis
  proof (cases "cl_status B cs call = CL_SUCCESS")
    case False
    then have "enqueue_walk_image B img f flags origin region events False cq cs H =
        (Inl (opencl_error (cl_status B cs call)), cq, cs @ [call] @ [], H)"
      using q c by (simp add: enqueue_walk_image_def map_image_result Let_def call_def)
    then show ?thesis unfolding call_def by blast
  next
    case True
    obtain p rp sp where m: "cl_map_out B cs call = (p, rp, sp)"
      by (cases "cl_map_out B cs call") auto
    obtain r rest where u: "enqueue_unmap_buffer B (img_mem img) (img_context img) p [] False cq
        (cs @ [call]) = (r, cq, (cs @ [call]) @ rest)"
      using unmap_buffer_log by blast
    have "\<exists>H'. enqueue_walk_image B img f flags origin region events False cq cs H =
        (r, cq, cs @ [call] @ rest, H')"
      using q c True m u
      by (simp add: enqueue_walk_image_def map_image_result [OF q c] Let_def call_def)
    then show ?thesis unfolding call_def by blast
  qed
qed

lemma walk_image_log_async:
  assumes q: "m_queue cq \<noteq> 0" and c: "img_context img = queue_context B (m_queue cq)"
  shows "\<exists>r rest H'. enqueue_walk_image B img f flags origin region events True cq cs H =
     (r, cq,
      cs @ [clCreateUserEvent (queue_context B (m_queue cq))] @
        [clEnqueue (m_queue cq)
           (MapImage (img_mem img) False flags
              (case origin of None \<Rightarrow> (0, 0, 0) | Some og \<Rightarrow> og)
              (case region of
                 None \<Rightarrow> (img_width img, max 1 (img_height img), max 1 (img_depth img))
               | Some rg \<Rightarrow> rg))
           events True] @ rest,
      H')"
proof -
  define call where "call = clEnqueue (m_queue cq) (MapImage (img_mem img) False flags
      (case origin of None \<Rightarrow> (0, 0, 0) | Some og \<Rightarrow> og)
      (case region of
         None \<Rightarrow> (img_width img, max 1 (img_height img), max 1 (img_depth img))
       | Some rg \<Rightarrow> rg)) events True"
  define create where "create = clCreateUserEvent (queue_context B (m_queue cq))"
  show ?thesis
  proof (cases "cl_status B (cs @ [create]) call = CL_SUCCESS")
    case False
    then have "enqueue_walk_image B img f flags origin region events True cq cs H =
        (Inl (opencl_error (cl_status B (cs @ [create]) call)), cq,
         cs @ [create] @ [call] @ [], H)"
      using q c by (simp add: enqueue_walk_image_def map_image_result [OF q c] Let_def call_def
          create_def)
    then show ?thesis unfolding call_def create_def by blast
  next
    case True
    obtain p rp sp where m: "cl_map_out B (cs @ [create]) call = (p, rp, sp)"
      by (cases "cl_map_out B (cs @ [create]) call") auto
    obtain r rest where u: "enqueue_unmap_buffer B (img_mem img) (img_context img) p
        [cl_event_out B cs create] True cq
        (cs @ [create, call, clSetEventCallback (cl_event_out B (cs @ [create]) call)]) =
        (r, cq, (cs @ [create, call, clSetEventCallback (cl_event_out B (cs @ [create]) call)])
           @ rest)"
      using unmap_buffer_log by blast
    have "\<exists>H'. enqueue_walk_image B img f flags origin region events True cq cs H =
        (r, cq, cs @ [create] @ [call] @
           (clSetEventCallback (cl_event_out B (cs @ [create]) call) # rest), H')"
      using q c True m u
      by (simp add: enqueue_walk_image_def map_image_result [OF q c] Let_def call_def create_def)
    then show ?thesis unfolding call_def create_def by blast
  qed
qed


text \<open>
  Claim C3. A call of \<open>enqueue_walk_image\<close>, or of the raw image fill built on it,
  with a null origin is the call with the origin (0, 0, 0), and a call with a null
  region is the call with the region (width, height, depth) of the image, where a
  height or depth of 0 (an image without that dimension) is replaced by 1. When the
  assertions hold and both pointers are null, the map call that reaches the backend
  carries exactly this origin and region, in the synchronous and in the asynchronous
  execution. The raw fill is the walk with the function that copies the fill colour to
  each element, mapped for writing, so its map call carries the same default origin
  and region with \<^verbatim>\<open>CL_MAP_WRITE\<close>.
\<close>

theorem walk_image_defaults:
  "enqueue_walk_image B img f flags None region events pevent cq cs H =
     enqueue_walk_image B img f flags (Some (0, 0, 0)) region events pevent cq cs H \<and>
   enqueue_walk_image B img f flags origin None events pevent cq cs H =
     enqueue_walk_image B img f flags origin
       (Some (img_width img, if img_height img = 0 then 1 else img_height img,
              if img_depth img = 0 then 1 else img_depth img))
       events pevent cq cs H \<and>
   enqueue_rawfill_image_walking B img fill_color None region events pevent cq cs G =
     enqueue_rawfill_image_walking B img fill_color (Some (0, 0, 0)) region events pevent cq cs G \<and>
   enqueue_rawfill_image_walking B img fill_color origin None events pevent cq cs G =
     enqueue_rawfill_image_walking B img fill_color origin
       (Some (img_width img, if img_height img = 0 then 1 else img_height img,
              if img_depth img = 0 then 1 else img_depth img))
       events pevent cq cs G \<and>
   (m_queue cq \<noteq> 0 \<and> img_context img = queue_context B (m_queue cq) \<longrightarrow>
      (\<exists>r rest H'. enqueue_walk_image B img f flags None None events pevent cq cs H =
         (r, cq,
          cs @ (if pevent then [clCreateUserEvent (queue_context B (m_queue cq))] else []) @
            [clEnqueue (m_queue cq)
               (MapImage (img_mem img) (\<not> pevent) flags (0, 0, 0)
                  (img_width img, if img_height img = 0 then 1 else img_height img,
                   if img_depth img = 0 then 1 else img_depth img))
               events pevent] @ rest,
          H'))) \<and>
   enqueue_rawfill_image_walking B img fill_color origin region events pevent cq cs G =
     enqueue_walk_image B img (fillc_call (fillc_init (img_element_size img) fill_color))
       CL_MAP_WRITE origin region events pevent cq cs G \<and>
   (m_queue cq \<noteq> 0 \<and> img_context img = queue_context B (m_queue cq) \<longrightarrow>
      (\<exists>r rest G'. enqueue_rawfill_image_walking B img fill_color None None events pevent
           cq cs G =
         (r, cq,
          cs @ (if pevent then [clCreateUserEvent (queue_context B (m_queue cq))] else []) @
            [clEnqueue (m_queue cq)
               (MapImage (img_mem img) (\<not> pevent) CL_MAP_WRITE (0, 0, 0)
                  (img_width img, if img_height img = 0 then 1 else img_height img,
                   if img_depth img = 0 then 1 else img_depth img))
               events pevent] @ rest,
          G')))"
proof -
  have mx: "max 1 (img_height img) = (if img_height img = 0 then 1 else img_height img)"
    "max 1 (img_depth img) = (if img_depth img = 0 then 1 else img_depth img)"
    by (simp_all add: max_def)
  have a: "enqueue_walk_image B img f flags None region events pevent cq cs H =
     enqueue_walk_image B img f flags (Some (0, 0, 0)) region events pevent cq cs H"
    for f :: "host_ptr \<Rightarrow> size_t \<Rightarrow> size_t \<Rightarrow> size_t \<Rightarrow> 'x \<Rightarrow> 'x" and H region flags
    by (simp only: enqueue_walk_image_def option.case)
  have b: "enqueue_walk_image B img f flags origin None events pevent cq cs H =
     enqueue_walk_image B img f flags origin
       (Some (img_width img, if img_height img = 0 then 1 else img_height img,
              if img_depth img = 0 then 1 else img_depth img))
       events pevent cq cs H"
    for f :: "host_ptr \<Rightarrow> size_t \<Rightarrow> size_t \<Rightarrow> size_t \<Rightarrow> 'x \<Rightarrow> 'x" and H origin flags
    by (simp only: enqueue_walk_image_def option.case mx)
  have c: "enqueue_rawfill_image_walking B img fill_color None region events pevent cq cs G =
     enqueue_rawfill_image_walking B img fill_color (Some (0, 0, 0)) region events pevent cq cs G"
    by (simp only: enqueue_rawfill_image_walking_def Let_def a)
  have d: "enqueue_rawfill_image_walking B img fill_color origin None events pevent cq cs G =
     enqueue_rawfill_image_walking B img fill_color origin
       (Some (img_width img, if img_height img = 0 then 1 else img_height img,
              if img_depth img = 0 then 1 else img_depth img))
       events pevent cq cs G"
    by (simp only: enqueue_rawfill_image_walking_def Let_def b)
  have e: "\<exists>r rest H'. enqueue_walk_image B img f flags None None events pevent cq cs H =
         (r, cq,
          cs @ (if pevent then [clCreateUserEvent (queue_context B (m_queue cq))] else []) @
            [clEnqueue (m_queue cq)
               (MapImage (img_mem img) (\<not> pevent) flags (0, 0, 0)
                  (img_width img, if img_height img = 0 then 1 else img_height img,
                   if img_depth img = 0 then 1 else img_depth img))
               events pevent] @ rest,
          H')"
    if q: "m_queue cq \<noteq> 0" and x: "img_context img = queue_context B (m_queue cq)"
    for f :: "host_ptr \<Rightarrow> size_t \<Rightarrow> size_t \<Rightarrow> size_t \<Rightarrow> 'x \<Rightarrow> 'x" and H flags
  proof (cases pevent)
    case True
    with walk_image_log_async [OF q x, of f flags None None events cs H] show ?thesis
      by (simp only: option.case mx if_True not_True_eq_False)
  next
    case False
    with walk_image_log_sync [OF q x, of f flags None None events cs H] show ?thesis
      by (simp only: option.case mx if_False not_False_eq_True append_Nil)
  qed
  have g: "enqueue_rawfill_image_walking B img fill_color origin region events pevent cq cs G =
     enqueue_walk_image B img (fillc_call (fillc_init (img_element_size img) fill_color))
       CL_MAP_WRITE origin region events pevent cq cs G"
    for origin region
    by (simp only: enqueue_rawfill_image_walking_def Let_def)
  have k: "\<exists>r rest G'. enqueue_rawfill_image_walking B img fill_color None None events pevent
           cq cs G =
         (r, cq,
          cs @ (if pevent then [clCreateUserEvent (queue_context B (m_queue cq))] else []) @
            [clEnqueue (m_queue cq)
               (MapImage (img_mem img) (\<not> pevent) CL_MAP_WRITE (0, 0, 0)
                  (img_width img, if img_height img = 0 then 1 else img_height img,
                   if img_depth img = 0 then 1 else img_depth img))
               events pevent] @ rest,
          G')"
    if q: "m_queue cq \<noteq> 0" and x: "img_context img = queue_context B (m_queue cq)"
    using e [OF q x, of "fillc_call (fillc_init (img_element_size img) fill_color)"
        CL_MAP_WRITE G]
    by (simp only: g)
  from a b c d e g k show ?thesis by blast
qed

lemma demo_upt: "[0..<4] = [0, 1, 2, 3]" "[0..<Suc 0] = [0]"
  by (simp_all add: upt_conv_Cons)

theorem walk_image_defaults_witness:
  "m_queue \<lparr>m_queue = 3, m_version = 120\<rparr> \<noteq> 0 \<and>
   img_context demo_image = queue_context (accepting_backend 120) 3 \<and>
   img_height demo_image = 0 \<and> img_depth demo_image = 0 \<and>
   (\<exists>r rest H'. enqueue_walk_image (accepting_backend 120) demo_image record_visit
        CL_MAP_READ None None [] False \<lparr>m_queue = 3, m_version = 120\<rparr> []
        \<lparr>memory = [], callbacks = []\<rparr> =
      (r, \<lparr>m_queue = 3, m_version = 120\<rparr>,
       clEnqueue 3 (MapImage 6 True CL_MAP_READ (0, 0, 0) (4, 1, 1)) [] False # rest, H')) \<and>
   enqueue_walk_image (accepting_backend 120) demo_image record_visit CL_MAP_READ None None []
       False \<lparr>m_queue = 3, m_version = 120\<rparr> [] \<lparr>memory = [], callbacks = []\<rparr> =
     (Inr None, \<lparr>m_queue = 3, m_version = 120\<rparr>,
      [clEnqueue 3 (MapImage 6 True 1 (0, 0, 0) (4, 1, 1)) [] False,
       clEnqueue 3 (UnmapMemObject 6 1000) [] False],
      \<lparr>memory = [(1000, 0, 0, 0), (1004, 1, 0, 0), (1008, 2, 0, 0), (1012, 3, 0, 0)],
       callbacks = []\<rparr>) \<and>
   (\<exists>r rest G'. enqueue_rawfill_image_walking (accepting_backend 120) demo_image
        [17, 34, 51, 68] None None [] False \<lparr>m_queue = 3, m_version = 120\<rparr> []
        \<lparr>memory = (\<lambda>a. 0), callbacks = []\<rparr> =
      (r, \<lparr>m_queue = 3, m_version = 120\<rparr>,
       clEnqueue 3 (MapImage 6 True CL_MAP_WRITE (0, 0, 0) (4, 1, 1)) [] False # rest, G')) \<and>
   fst (enqueue_rawfill_image_walking (accepting_backend 120) demo_image
        [17, 34, 51, 68] None None [] False \<lparr>m_queue = 3, m_version = 120\<rparr> []
        \<lparr>memory = (\<lambda>a. 0), callbacks = []\<rparr>) = Inr None \<and>
   fst (snd (snd (enqueue_rawfill_image_walking (accepting_backend 120) demo_image
        [17, 34, 51, 68] None None [] False \<lparr>m_queue = 3, m_version = 120\<rparr> []
        \<lparr>memory = (\<lambda>a. 0), callbacks = []\<rparr>))) =
     [clEnqueue 3 (MapImage 6 True 2 (0, 0, 0) (4, 1, 1)) [] False,
      clEnqueue 3 (UnmapMemObject 6 1000) [] False] \<and>
   map (memory (snd (snd (snd (enqueue_rawfill_image_walking (accepting_backend 120)
        demo_image [17, 34, 51, 68] None None [] False \<lparr>m_queue = 3, m_version = 120\<rparr> []
        \<lparr>memory = (\<lambda>a. 0), callbacks = []\<rparr>)))))
     [999, 1000, 1001, 1002, 1003, 1004, 1011, 1012, 1015, 1016] =
     [0, 17, 34, 51, 68, 17, 68, 17, 68, 0]"
proof -
  have w: "walk_image record_visit 1000 (0, 0, 0) (4, Suc 0, Suc 0) 64 256 4 [] =
      [(1000, 0, 0, 0), (1004, 1, 0, 0), (1008, 2, 0, 0), (1012, 3, 0, 0)]"
    by (simp add: walk_image_from_zero_origin region_elements_def demo_upt)
  have d: "img_context demo_image = 7" "img_mem demo_image = 6" "img_width demo_image = 4"
    "img_height demo_image = 0" "img_depth demo_image = 0" "img_element_size demo_image = 4"
    by (simp_all add: demo_image_def)
  have b: "queue_context (accepting_backend 120) = (\<lambda>q. 7)"
    "cl_status (accepting_backend 120) = (\<lambda>cs c. 0)"
    "cl_map_out (accepting_backend 120) = (\<lambda>cs c. (1000, 64, 256))"
    by (simp_all add: accepting_backend_def)
  have h: "m_queue \<lparr>m_queue = 3, m_version = 120\<rparr> \<noteq> 0 \<and>
     img_context demo_image =
       queue_context (accepting_backend 120) (m_queue \<lparr>m_queue = 3, m_version = 120\<rparr>)"
    by (simp add: d b)
  note T = walk_image_defaults [where B = "accepting_backend 120" and img = demo_image
      and f = record_visit and flags = CL_MAP_READ and events = "[]" and pevent = False
      and cq = "\<lparr>m_queue = 3, m_version = 120\<rparr>" and cs = "[]"
      and H = "\<lparr>memory = [], callbacks = []\<rparr>" and fill_color = "[17, 34, 51, 68]"
      and G = "\<lparr>memory = (\<lambda>a. 0), callbacks = []\<rparr>"]
  from T [THEN conjunct2, THEN conjunct2, THEN conjunct2, THEN conjunct2, THEN conjunct1,
      THEN mp, OF h]
  have w1: "\<exists>r rest H'. enqueue_walk_image (accepting_backend 120) demo_image record_visit
        CL_MAP_READ None None [] False \<lparr>m_queue = 3, m_version = 120\<rparr> []
        \<lparr>memory = [], callbacks = []\<rparr> =
      (r, \<lparr>m_queue = 3, m_version = 120\<rparr>,
       clEnqueue 3 (MapImage 6 True CL_MAP_READ (0, 0, 0) (4, 1, 1)) [] False # rest, H')"
    by (simp add: d)
  have w2: "enqueue_walk_image (accepting_backend 120) demo_image record_visit CL_MAP_READ None None []
       False \<lparr>m_queue = 3, m_version = 120\<rparr> [] \<lparr>memory = [], callbacks = []\<rparr> =
     (Inr None, \<lparr>m_queue = 3, m_version = 120\<rparr>,
      [clEnqueue 3 (MapImage 6 True 1 (0, 0, 0) (4, 1, 1)) [] False,
       clEnqueue 3 (UnmapMemObject 6 1000) [] False],
      \<lparr>memory = [(1000, 0, 0, 0), (1004, 1, 0, 0), (1008, 2, 0, 0), (1012, 3, 0, 0)],
       callbacks = []\<rparr>)"
    by (simp add: enqueue_walk_image_def enqueue_map_image_def enqueue_unmap_buffer_def
        enqueue_unmap_mem_object_def submit_def d b CL_SUCCESS_def CL_MAP_READ_def Let_def w)
  from T [THEN conjunct2, THEN conjunct2, THEN conjunct2, THEN conjunct2, THEN conjunct2,
      THEN conjunct2, THEN mp, OF h]
  have w3: "\<exists>r rest G'. enqueue_rawfill_image_walking (accepting_backend 120) demo_image
        [17, 34, 51, 68] None None [] False \<lparr>m_queue = 3, m_version = 120\<rparr> []
        \<lparr>memory = (\<lambda>a. 0), callbacks = []\<rparr> =
      (r, \<lparr>m_queue = 3, m_version = 120\<rparr>,
       clEnqueue 3 (MapImage 6 True CL_MAP_WRITE (0, 0, 0) (4, 1, 1)) [] False # rest, G')"
    by (simp add: d)
  have z: "zip [0..<4] [17, 34, 51, 68::nat] = [(0, 17), (Suc 0, 34), (2, 51), (3, 68)]"
    by (simp add: demo_upt)
  have rg: "region_elements 1000 (0, 0, 0) (4, Suc 0, Suc 0) 64 256 4 =
      [(1000, 0, 0, 0), (1004, 1, 0, 0), (1008, 2, 0, 0), (1012, 3, 0, 0)]"
    by (simp add: region_elements_def demo_upt)
  have f0: "walk_image f 1000 (0, 0, 0) (4, Suc 0, Suc 0) 64 256 4 mem =
      fold (\<lambda>(p, w, h, d). f p w h d)
        [(1000, 0, 0, 0), (1004, 1, 0, 0), (1008, 2, 0, 0), (1012, 3, 0, 0)] mem"
    for f :: "host_ptr \<Rightarrow> size_t \<Rightarrow> size_t \<Rightarrow> size_t \<Rightarrow> (host_ptr \<Rightarrow> nat) \<Rightarrow> (host_ptr \<Rightarrow> nat)"
      and mem
    using walk_image_fold [of f 1000 0 0 0 4 "Suc 0" "Suc 0" 64 256 4 mem] by (simp add: rg)
  have fc: "fillc_call (fillc_init 4 [17, 34, 51, 68]) p x y zz mem =
      mem(p := 17, p + 1 := 34, p + 2 := 51, p + 3 := 68)" for p x y zz mem
    by (simp add: fillc_call_def fillc_init_def z)
  have fill: "walk_image (fillc_call (fillc_init 4 [17, 34, 51, 68])) 1000 (0, 0, 0)
        (4, Suc 0, Suc 0) 64 256 4 (\<lambda>a. 0) =
      (\<lambda>a. 0)(1000 := 17, 1001 := 34, 1002 := 51, 1003 := 68, 1004 := 17, 1005 := 34,
        1006 := 51, 1007 := 68, 1008 := 17, 1009 := 34, 1010 := 51, 1011 := 68, 1012 := 17,
        1013 := 34, 1014 := 51, 1015 := 68)"
    by (simp add: f0 fc)
  have w4: "enqueue_rawfill_image_walking (accepting_backend 120) demo_image
        [17, 34, 51, 68] None None [] False \<lparr>m_queue = 3, m_version = 120\<rparr> []
        \<lparr>memory = (\<lambda>a. 0), callbacks = []\<rparr> =
      (Inr None, \<lparr>m_queue = 3, m_version = 120\<rparr>,
       [clEnqueue 3 (MapImage 6 True 2 (0, 0, 0) (4, 1, 1)) [] False,
        clEnqueue 3 (UnmapMemObject 6 1000) [] False],
       \<lparr>memory = (\<lambda>a. 0)(1000 := 17, 1001 := 34, 1002 := 51, 1003 := 68, 1004 := 17, 1005 := 34,
          1006 := 51, 1007 := 68, 1008 := 17, 1009 := 34, 1010 := 51, 1011 := 68, 1012 := 17,
          1013 := 34, 1014 := 51, 1015 := 68),
        callbacks = []\<rparr>)"
    by (simp add: enqueue_rawfill_image_walking_def enqueue_walk_image_def
        enqueue_map_image_def enqueue_unmap_buffer_def enqueue_unmap_mem_object_def
        submit_def d b CL_SUCCESS_def CL_MAP_WRITE_def Let_def fill)
  have w5: "fst (enqueue_rawfill_image_walking (accepting_backend 120) demo_image
        [17, 34, 51, 68] None None [] False \<lparr>m_queue = 3, m_version = 120\<rparr> []
        \<lparr>memory = (\<lambda>a. 0), callbacks = []\<rparr>) = Inr None"
    "fst (snd (snd (enqueue_rawfill_image_walking (accepting_backend 120) demo_image
        [17, 34, 51, 68] None None [] False \<lparr>m_queue = 3, m_version = 120\<rparr> []
        \<lparr>memory = (\<lambda>a. 0), callbacks = []\<rparr>))) =
     [clEnqueue 3 (MapImage 6 True 2 (0, 0, 0) (4, 1, 1)) [] False,
      clEnqueue 3 (UnmapMemObject 6 1000) [] False]"
    "map (memory (snd (snd (snd (enqueue_rawfill_image_walking (accepting_backend 120)
        demo_image [17, 34, 51, 68] None None [] False \<lparr>m_queue = 3, m_version = 120\<rparr> []
        \<lparr>memory = (\<lambda>a. 0), callbacks = []\<rparr>)))))
     [999, 1000, 1001, 1002, 1003, 1004, 1011, 1012, 1015, 1016] =
     [0, 17, 34, 51, 68, 17, 68, 17, 68, 0]"
    by (simp_all add: w4)
  from h w1 w2 w3 w5 d show ?thesis by simp
qed

subsection \<open>Single work-item tasks\<close>

text \<open>
  Claim C10. When the assertions hold and the version resolves to at least 200,
  \<open>enqueue_task\<close> is the N-dimensional dispatch of the kernel with work dimension
  1, a null global offset and global and local work sizes of one element equal to 1
  (on the queue object and log as the version resolution leaves them): the one call
  it logs is that \<^verbatim>\<open>clEnqueueNDRangeKernel\<close> request. Below 200 the one call is
  the legacy \<^verbatim>\<open>clEnqueueTask\<close> request. On either path a status other than
  \<^verbatim>\<open>CL_SUCCESS\<close> is thrown as an \<open>opencl_error\<close> carrying that status.
\<close>

theorem enqueue_task_dispatch:
  "(m_queue cq \<noteq> 0 \<and> krn_context krn = queue_context B (m_queue cq) \<and>
    version_resolves B cq cs \<and> 200 \<le> resolved_version B cq \<longrightarrow>
      enqueue_task B krn events event_p cq cs =
        enqueue_nd_range_kernel B krn 1 None (Some [1]) (Some [1]) events event_p
          (resolved B cq) (version_query cq cs) \<and>
      snd (enqueue_task B krn events event_p cq cs) =
        (resolved B cq,
         version_query cq cs @
           [clEnqueue (m_queue cq) (NDRangeKernel (krn_id krn) 1 None (Some [1]) (Some [1]))
              events event_p]) \<and>
      (cl_status B (version_query cq cs)
         (clEnqueue (m_queue cq) (NDRangeKernel (krn_id krn) 1 None (Some [1]) (Some [1]))
            events event_p) \<noteq> CL_SUCCESS \<longrightarrow>
       fst (enqueue_task B krn events event_p cq cs) =
         Inl (opencl_error (cl_status B (version_query cq cs)
           (clEnqueue (m_queue cq) (NDRangeKernel (krn_id krn) 1 None (Some [1]) (Some [1]))
              events event_p))))) \<and>
   (m_queue cq2 \<noteq> 0 \<and> krn_context krn2 = queue_context B2 (m_queue cq2) \<and>
    version_resolves B2 cq2 cs2 \<and> resolved_version B2 cq2 < 200 \<longrightarrow>
      snd (enqueue_task B2 krn2 events2 event_p2 cq2 cs2) =
        (resolved B2 cq2,
         version_query cq2 cs2 @ [clEnqueue (m_queue cq2) (Task (krn_id krn2)) events2 event_p2]) \<and>
      (cl_status B2 (version_query cq2 cs2)
         (clEnqueue (m_queue cq2) (Task (krn_id krn2)) events2 event_p2) \<noteq> CL_SUCCESS \<longrightarrow>
       fst (enqueue_task B2 krn2 events2 event_p2 cq2 cs2) =
         Inl (opencl_error (cl_status B2 (version_query cq2 cs2)
           (clEnqueue (m_queue cq2) (Task (krn_id krn2)) events2 event_p2)))))"
  by (simp add: enqueue_task_def enqueue_nd_range_kernel_def get_version_resolved
      m_queue_resolved submit_def Let_def)

theorem enqueue_task_dispatch_witness:
  "m_queue \<lparr>m_queue = 3, m_version = 200\<rparr> \<noteq> 0 \<and>
   krn_context demo_kernel = queue_context (rejecting_backend 200 (- 5)) 3 \<and>
   version_resolves (rejecting_backend 200 (- 5)) \<lparr>m_queue = 3, m_version = 200\<rparr> [] \<and>
   200 \<le> resolved_version (rejecting_backend 200 (- 5)) \<lparr>m_queue = 3, m_version = 200\<rparr> \<and>
   version_resolves (rejecting_backend 120 (- 5)) \<lparr>m_queue = 3, m_version = 0\<rparr> [] \<and>
   resolved_version (rejecting_backend 120 (- 5)) \<lparr>m_queue = 3, m_version = 0\<rparr> < 200 \<and>
   enqueue_task (rejecting_backend 200 (- 5)) demo_kernel [] False
       \<lparr>m_queue = 3, m_version = 200\<rparr> [] =
     enqueue_nd_range_kernel (rejecting_backend 200 (- 5)) demo_kernel 1 None (Some [1])
       (Some [1]) [] False \<lparr>m_queue = 3, m_version = 200\<rparr> [] \<and>
   enqueue_task (rejecting_backend 200 (- 5)) demo_kernel [] False
       \<lparr>m_queue = 3, m_version = 200\<rparr> [] =
     (Inl (opencl_error (- 5)), \<lparr>m_queue = 3, m_version = 200\<rparr>,
      [clEnqueue 3 (NDRangeKernel 9 1 None (Some [1]) (Some [1])) [] False]) \<and>
   enqueue_task (rejecting_backend 120 (- 5)) demo_kernel [] False
       \<lparr>m_queue = 3, m_version = 0\<rparr> [] =
     (Inl (opencl_error (- 5)), \<lparr>m_queue = 3, m_version = 120\<rparr>,
      [QueryDeviceVersion 3, clEnqueue 3 (Task 9) [] False])"
proof -
  have h: "m_queue \<lparr>m_queue = 3, m_version = 200\<rparr> \<noteq> 0 \<and>
      krn_context demo_kernel = queue_context (rejecting_backend 200 (- 5)) (m_queue \<lparr>m_queue = 3, m_version = 200\<rparr>) \<and>
      version_resolves (rejecting_backend 200 (- 5)) \<lparr>m_queue = 3, m_version = 200\<rparr> [] \<and>
      200 \<le> resolved_version (rejecting_backend 200 (- 5)) \<lparr>m_queue = 3, m_version = 200\<rparr>"
    by (simp add: resolved_version_def version_resolves_def rejecting_backend_def
        accepting_backend_def demo_kernel_def)
  have h2: "m_queue \<lparr>m_queue = 3, m_version = 0\<rparr> \<noteq> 0 \<and>
      krn_context demo_kernel = queue_context (rejecting_backend 120 (- 5)) (m_queue \<lparr>m_queue = 3, m_version = 0\<rparr>) \<and>
      version_resolves (rejecting_backend 120 (- 5)) \<lparr>m_queue = 3, m_version = 0\<rparr> [] \<and>
      resolved_version (rejecting_backend 120 (- 5)) \<lparr>m_queue = 3, m_version = 0\<rparr> < 200"
    by (simp add: resolved_version_def version_resolves_def rejecting_backend_def
        accepting_backend_def demo_kernel_def CL_SUCCESS_def)
  have e: "resolved (rejecting_backend 200 (- 5)) \<lparr>m_queue = 3, m_version = 200\<rparr> =
       \<lparr>m_queue = 3, m_version = 200\<rparr>"
    "version_query \<lparr>m_queue = 3, m_version = 200\<rparr> [] = []"
    by (simp_all add: resolved_version_def resolved_def version_query_def)
  note T = enqueue_task_dispatch [where B = "rejecting_backend 200 (- 5)"
      and krn = demo_kernel and events = "[]" and event_p = False
      and cq = "\<lparr>m_queue = 3, m_version = 200\<rparr>" and cs = "[]"
      and ?B2.0 = "rejecting_backend 120 (- 5)" and ?krn2.0 = demo_kernel
      and ?events2.0 = "[]" and ?event_p2.0 = False
      and ?cq2.0 = "\<lparr>m_queue = 3, m_version = 0\<rparr>" and ?cs2.0 = "[]"]
  from T [THEN conjunct1, THEN mp, OF h, THEN conjunct1]
  have w1: "enqueue_task (rejecting_backend 200 (- 5)) demo_kernel [] False
       \<lparr>m_queue = 3, m_version = 200\<rparr> [] =
     enqueue_nd_range_kernel (rejecting_backend 200 (- 5)) demo_kernel 1 None (Some [1])
       (Some [1]) [] False \<lparr>m_queue = 3, m_version = 200\<rparr> []"
    by (simp only: e)
  have w2: "enqueue_task (rejecting_backend 200 (- 5)) demo_kernel [] False
       \<lparr>m_queue = 3, m_version = 200\<rparr> [] =
     (Inl (opencl_error (- 5)), \<lparr>m_queue = 3, m_version = 200\<rparr>,
      [clEnqueue 3 (NDRangeKernel 9 1 None (Some [1]) (Some [1])) [] False])"
    by (simp add: enqueue_task_def get_version_def submit_def
        rejecting_backend_def accepting_backend_def demo_kernel_def
        CL_SUCCESS_def Let_def)
  have w3: "enqueue_task (rejecting_backend 120 (- 5)) demo_kernel [] False
       \<lparr>m_queue = 3, m_version = 0\<rparr> [] =
     (Inl (opencl_error (- 5)), \<lparr>m_queue = 3, m_version = 120\<rparr>,
      [QueryDeviceVersion 3, clEnqueue 3 (Task 9) [] False])"
    by (simp add: enqueue_task_def get_version_def submit_def
        rejecting_backend_def accepting_backend_def demo_kernel_def
        CL_SUCCESS_def Let_def)
  from h h2 w1 w2 w3 show ?thesis by simp
qed

end
